theory Spec2Isabelle
  imports Main
begin

section \<open>Message texts\<close>

text \<open>
  The user-visible texts of \<^verbatim>\<open>main.py\<close> are Thai string literals. A \<^typ>\<open>string\<close> is a
  list of 8-bit characters, so each literal is written here as its UTF-8 encoding; the
  gloss above each constant says which literal of the source it is.
\<close>

text \<open>download_file / get_status, 404: no such download job.\<close>

definition msg_job_not_found :: string where
  "msg_job_not_found =
    [CHR 0xE0, CHR 0xB9, CHR 0x84, CHR 0xE0, CHR 0xB8, CHR 0xA1, CHR 0xE0, CHR 0xB9,
     CHR 0x88, CHR 0xE0, CHR 0xB8, CHR 0x9E, CHR 0xE0, CHR 0xB8, CHR 0x9A, CHR 0xE0,
     CHR 0xB8, CHR 0x87, CHR 0xE0, CHR 0xB8, CHR 0xB2, CHR 0xE0, CHR 0xB8, CHR 0x99,
     CHR 0xE0, CHR 0xB8, CHR 0x94, CHR 0xE0, CHR 0xB8, CHR 0xB2, CHR 0xE0, CHR 0xB8,
     CHR 0xA7, CHR 0xE0, CHR 0xB8, CHR 0x99, CHR 0xE0, CHR 0xB9, CHR 0x8C, CHR 0xE0,
     CHR 0xB9, CHR 0x82, CHR 0xE0, CHR 0xB8, CHR 0xAB, CHR 0xE0, CHR 0xB8, CHR 0xA5,
     CHR 0xE0, CHR 0xB8, CHR 0x94, CHR 0xE0, CHR 0xB8, CHR 0x99, CHR 0xE0, CHR 0xB8,
     CHR 0xB5, CHR 0xE0, CHR 0xB9, CHR 0x89]"

text \<open>download_file, 410: the file was already downloaded and deleted.\<close>

definition msg_gone :: string where
  "msg_gone =
    [CHR 0xE0, CHR 0xB9, CHR 0x84, CHR 0xE0, CHR 0xB8, CHR 0x9F, CHR 0xE0, CHR 0xB8,
     CHR 0xA5, CHR 0xE0, CHR 0xB9, CHR 0x8C, CHR 0xE0, CHR 0xB8, CHR 0x99, CHR 0xE0,
     CHR 0xB8, CHR 0xB5, CHR 0xE0, CHR 0xB9, CHR 0x89, CHR 0xE0, CHR 0xB8, CHR 0x96,
     CHR 0xE0, CHR 0xB8, CHR 0xB9, CHR 0xE0, CHR 0xB8, CHR 0x81, CHR 0xE0, CHR 0xB8,
     CHR 0x94, CHR 0xE0, CHR 0xB8, CHR 0xB2, CHR 0xE0, CHR 0xB8, CHR 0xA7, CHR 0xE0,
     CHR 0xB8, CHR 0x99, CHR 0xE0, CHR 0xB9, CHR 0x8C, CHR 0xE0, CHR 0xB9, CHR 0x82,
     CHR 0xE0, CHR 0xB8, CHR 0xAB, CHR 0xE0, CHR 0xB8, CHR 0xA5, CHR 0xE0, CHR 0xB8,
     CHR 0x94, CHR 0xE0, CHR 0xB9, CHR 0x81, CHR 0xE0, CHR 0xB8, CHR 0xA5, CHR 0xE0,
     CHR 0xB8, CHR 0xB0, CHR 0xE0, CHR 0xB8, CHR 0xA5, CHR 0xE0, CHR 0xB8, CHR 0x9A,
     CHR 0xE0, CHR 0xB9, CHR 0x84, CHR 0xE0, CHR 0xB8, CHR 0x9B, CHR 0xE0, CHR 0xB9,
     CHR 0x81, CHR 0xE0, CHR 0xB8, CHR 0xA5, CHR 0xE0, CHR 0xB9, CHR 0x89, CHR 0xE0,
     CHR 0xB8, CHR 0xA7]"

text \<open>download_file, 409: the file is being sent to another request.\<close>

definition msg_delivering :: string where
  "msg_delivering =
    [CHR 0xE0, CHR 0xB9, CHR 0x84, CHR 0xE0, CHR 0xB8, CHR 0x9F, CHR 0xE0, CHR 0xB8,
     CHR 0xA5, CHR 0xE0, CHR 0xB9, CHR 0x8C, CHR 0xE0, CHR 0xB8, CHR 0x81, CHR 0xE0,
     CHR 0xB8, CHR 0xB3, CHR 0xE0, CHR 0xB8, CHR 0xA5, CHR 0xE0, CHR 0xB8, CHR 0xB1,
     CHR 0xE0, CHR 0xB8, CHR 0x87, CHR 0xE0, CHR 0xB8, CHR 0x96, CHR 0xE0, CHR 0xB8,
     CHR 0xB9, CHR 0xE0, CHR 0xB8, CHR 0x81, CHR 0xE0, CHR 0xB8, CHR 0xAA, CHR 0xE0,
     CHR 0xB9, CHR 0x88, CHR 0xE0, CHR 0xB8, CHR 0x87, CHR 0xE0, CHR 0xB9, CHR 0x83,
     CHR 0xE0, CHR 0xB8, CHR 0xAB, CHR 0xE0, CHR 0xB9, CHR 0x89, CHR 0xE0, CHR 0xB8,
     CHR 0x84, CHR 0xE0, CHR 0xB8, CHR 0xB3, CHR 0xE0, CHR 0xB8, CHR 0x82, CHR 0xE0,
     CHR 0xB8, CHR 0xAD, CHR 0xE0, CHR 0xB8, CHR 0xAD, CHR 0xE0, CHR 0xB8, CHR 0xB7,
     CHR 0xE0, CHR 0xB9, CHR 0x88, CHR 0xE0, CHR 0xB8, CHR 0x99]"

text \<open>download_file, 409: the job is not finished yet (followed by the status).\<close>

definition msg_not_ready :: string where
  "msg_not_ready =
    [CHR 0xE0, CHR 0xB8, CHR 0x87, CHR 0xE0, CHR 0xB8, CHR 0xB2, CHR 0xE0, CHR 0xB8,
     CHR 0x99, CHR 0xE0, CHR 0xB8, CHR 0xA2, CHR 0xE0, CHR 0xB8, CHR 0xB1, CHR 0xE0,
     CHR 0xB8, CHR 0x87, CHR 0xE0, CHR 0xB9, CHR 0x84, CHR 0xE0, CHR 0xB8, CHR 0xA1,
     CHR 0xE0, CHR 0xB9, CHR 0x88, CHR 0xE0, CHR 0xB9, CHR 0x80, CHR 0xE0, CHR 0xB8,
     CHR 0xAA, CHR 0xE0, CHR 0xB8, CHR 0xA3, CHR 0xE0, CHR 0xB9, CHR 0x87, CHR 0xE0,
     CHR 0xB8, CHR 0x88, CHR 0xE0, CHR 0xB8, CHR 0xAA, CHR 0xE0, CHR 0xB8, CHR 0xA1,
     CHR 0xE0, CHR 0xB8, CHR 0x9A, CHR 0xE0, CHR 0xB8, CHR 0xB9, CHR 0xE0, CHR 0xB8,
     CHR 0xA3, CHR 0xE0, CHR 0xB8, CHR 0x93, CHR 0xE0, CHR 0xB9, CHR 0x8C]"

text \<open>download_file, 404: no recorded file.\<close>

definition msg_no_file_recorded :: string where
  "msg_no_file_recorded =
    [CHR 0xE0, CHR 0xB9, CHR 0x84, CHR 0xE0, CHR 0xB8, CHR 0xA1, CHR 0xE0, CHR 0xB9,
     CHR 0x88, CHR 0xE0, CHR 0xB8, CHR 0x9E, CHR 0xE0, CHR 0xB8, CHR 0x9A, CHR 0xE0,
     CHR 0xB9, CHR 0x84, CHR 0xE0, CHR 0xB8, CHR 0x9F, CHR 0xE0, CHR 0xB8, CHR 0xA5,
     CHR 0xE0, CHR 0xB9, CHR 0x8C, CHR 0xE0, CHR 0xB8, CHR 0x97, CHR 0xE0, CHR 0xB8,
     CHR 0xB5, CHR 0xE0, CHR 0xB9, CHR 0x88, CHR 0xE0, CHR 0xB8, CHR 0x9A, CHR 0xE0,
     CHR 0xB8, CHR 0xB1, CHR 0xE0, CHR 0xB8, CHR 0x99, CHR 0xE0, CHR 0xB8, CHR 0x97,
     CHR 0xE0, CHR 0xB8, CHR 0xB6, CHR 0xE0, CHR 0xB8, CHR 0x81]"

text \<open>download_file, 404: the file was deleted or moved.\<close>

definition msg_file_missing :: string where
  "msg_file_missing =
    [CHR 0xE0, CHR 0xB9, CHR 0x84, CHR 0xE0, CHR 0xB8, CHR 0x9F, CHR 0xE0, CHR 0xB8,
     CHR 0xA5, CHR 0xE0, CHR 0xB9, CHR 0x8C, CHR 0xE0, CHR 0xB8, CHR 0x96, CHR 0xE0,
     CHR 0xB8, CHR 0xB9, CHR 0xE0, CHR 0xB8, CHR 0x81, CHR 0xE0, CHR 0xB8, CHR 0xA5,
     CHR 0xE0, CHR 0xB8, CHR 0x9A, CHR 0xE0, CHR 0xB8, CHR 0xAB, CHR 0xE0, CHR 0xB8,
     CHR 0xA3, CHR 0xE0, CHR 0xB8, CHR 0xB7, CHR 0xE0, CHR 0xB8, CHR 0xAD, CHR 0xE0,
     CHR 0xB8, CHR 0xA2, CHR 0xE0, CHR 0xB9, CHR 0x89, CHR 0xE0, CHR 0xB8, CHR 0xB2,
     CHR 0xE0, CHR 0xB8, CHR 0xA2, CHR 0xE0, CHR 0xB9, CHR 0x84, CHR 0xE0, CHR 0xB8,
     CHR 0x9B, CHR 0xE0, CHR 0xB9, CHR 0x81, CHR 0xE0, CHR 0xB8, CHR 0xA5, CHR 0xE0,
     CHR 0xB9, CHR 0x89, CHR 0xE0, CHR 0xB8, CHR 0xA7]"

text \<open>enqueue_download, 400: invalid download format (supported: ....\<close>

definition msg_bad_format :: string where
  "msg_bad_format =
    [CHR 0xE0, CHR 0xB8, CHR 0xA3, CHR 0xE0, CHR 0xB8, CHR 0xB9, CHR 0xE0, CHR 0xB8,
     CHR 0x9B, CHR 0xE0, CHR 0xB9, CHR 0x81, CHR 0xE0, CHR 0xB8, CHR 0x9A, CHR 0xE0,
     CHR 0xB8, CHR 0x9A, CHR 0xE0, CHR 0xB8, CHR 0x81, CHR 0xE0, CHR 0xB8, CHR 0xB2,
     CHR 0xE0, CHR 0xB8, CHR 0xA3, CHR 0xE0, CHR 0xB8, CHR 0x94, CHR 0xE0, CHR 0xB8,
     CHR 0xB2, CHR 0xE0, CHR 0xB8, CHR 0xA7, CHR 0xE0, CHR 0xB8, CHR 0x99, CHR 0xE0,
     CHR 0xB9, CHR 0x8C, CHR 0xE0, CHR 0xB9, CHR 0x82, CHR 0xE0, CHR 0xB8, CHR 0xAB,
     CHR 0xE0, CHR 0xB8, CHR 0xA5, CHR 0xE0, CHR 0xB8, CHR 0x94, CHR 0xE0, CHR 0xB9,
     CHR 0x84, CHR 0xE0, CHR 0xB8, CHR 0xA1, CHR 0xE0, CHR 0xB9, CHR 0x88, CHR 0xE0,
     CHR 0xB8, CHR 0x96, CHR 0xE0, CHR 0xB8, CHR 0xB9, CHR 0xE0, CHR 0xB8, CHR 0x81,
     CHR 0xE0, CHR 0xB8, CHR 0x95, CHR 0xE0, CHR 0xB9, CHR 0x89, CHR 0xE0, CHR 0xB8,
     CHR 0xAD, CHR 0xE0, CHR 0xB8, CHR 0x87, CHR 0x20, CHR 0x28, CHR 0xE0, CHR 0xB8,
     CHR 0xA3, CHR 0xE0, CHR 0xB8, CHR 0xAD, CHR 0xE0, CHR 0xB8, CHR 0x87, CHR 0xE0,
     CHR 0xB8, CHR 0xA3, CHR 0xE0, CHR 0xB8, CHR 0xB1, CHR 0xE0, CHR 0xB8, CHR 0x9A,
     CHR 0x3A, CHR 0x20]"

text \<open>resolve_ffmpeg_location: the given FFmpeg location was not found: ....\<close>

definition msg_ffmpeg_not_found :: string where
  "msg_ffmpeg_not_found =
    [CHR 0xE0, CHR 0xB9, CHR 0x84, CHR 0xE0, CHR 0xB8, CHR 0xA1, CHR 0xE0, CHR 0xB9,
     CHR 0x88, CHR 0xE0, CHR 0xB8, CHR 0x9E, CHR 0xE0, CHR 0xB8, CHR 0x9A, CHR 0xE0,
     CHR 0xB8, CHR 0x95, CHR 0xE0, CHR 0xB8, CHR 0xB3, CHR 0xE0, CHR 0xB9, CHR 0x81,
     CHR 0xE0, CHR 0xB8, CHR 0xAB, CHR 0xE0, CHR 0xB8, CHR 0x99, CHR 0xE0, CHR 0xB9,
     CHR 0x88, CHR 0xE0, CHR 0xB8, CHR 0x87, CHR 0x20, CHR 0x46, CHR 0x46, CHR 0x6D,
     CHR 0x70, CHR 0x65, CHR 0x67, CHR 0x20, CHR 0xE0, CHR 0xB8, CHR 0x97, CHR 0xE0,
     CHR 0xB8, CHR 0xB5, CHR 0xE0, CHR 0xB9, CHR 0x88, CHR 0xE0, CHR 0xB8, CHR 0xA3,
     CHR 0xE0, CHR 0xB8, CHR 0xB0, CHR 0xE0, CHR 0xB8, CHR 0x9A, CHR 0xE0, CHR 0xB8,
     CHR 0xB8, CHR 0x3A, CHR 0x20]"

text \<open>manual_cleanup, 404: no such job.\<close>

definition msg_no_job :: string where
  "msg_no_job =
    [CHR 0xE0, CHR 0xB9, CHR 0x84, CHR 0xE0, CHR 0xB8, CHR 0xA1, CHR 0xE0, CHR 0xB9,
     CHR 0x88, CHR 0xE0, CHR 0xB8, CHR 0x9E, CHR 0xE0, CHR 0xB8, CHR 0x9A, CHR 0xE0,
     CHR 0xB8, CHR 0x87, CHR 0xE0, CHR 0xB8, CHR 0xB2, CHR 0xE0, CHR 0xB8, CHR 0x99]"

text \<open>manual_cleanup: file deleted.\<close>

definition msg_deleted :: string where
  "msg_deleted =
    [CHR 0xE0, CHR 0xB8, CHR 0xA5, CHR 0xE0, CHR 0xB8, CHR 0x9A, CHR 0xE0, CHR 0xB9,
     CHR 0x84, CHR 0xE0, CHR 0xB8, CHR 0x9F, CHR 0xE0, CHR 0xB8, CHR 0xA5, CHR 0xE0,
     CHR 0xB9, CHR 0x8C, CHR 0xE0, CHR 0xB8, CHR 0xAA, CHR 0xE0, CHR 0xB8, CHR 0xB3,
     CHR 0xE0, CHR 0xB9, CHR 0x80, CHR 0xE0, CHR 0xB8, CHR 0xA3, CHR 0xE0, CHR 0xB9,
     CHR 0x87, CHR 0xE0, CHR 0xB8, CHR 0x88]"

text \<open>manual_cleanup: file not found or already deleted.\<close>

definition msg_already_gone :: string where
  "msg_already_gone =
    [CHR 0xE0, CHR 0xB9, CHR 0x84, CHR 0xE0, CHR 0xB8, CHR 0x9F, CHR 0xE0, CHR 0xB8,
     CHR 0xA5, CHR 0xE0, CHR 0xB9, CHR 0x8C, CHR 0xE0, CHR 0xB9, CHR 0x84, CHR 0xE0,
     CHR 0xB8, CHR 0xA1, CHR 0xE0, CHR 0xB9, CHR 0x88, CHR 0xE0, CHR 0xB8, CHR 0x9E,
     CHR 0xE0, CHR 0xB8, CHR 0x9A, CHR 0xE0, CHR 0xB8, CHR 0xAB, CHR 0xE0, CHR 0xB8,
     CHR 0xA3, CHR 0xE0, CHR 0xB8, CHR 0xB7, CHR 0xE0, CHR 0xB8, CHR 0xAD, CHR 0xE0,
     CHR 0xB8, CHR 0x96, CHR 0xE0, CHR 0xB8, CHR 0xB9, CHR 0xE0, CHR 0xB8, CHR 0x81,
     CHR 0xE0, CHR 0xB8, CHR 0xA5, CHR 0xE0, CHR 0xB8, CHR 0x9A, CHR 0xE0, CHR 0xB9,
     CHR 0x84, CHR 0xE0, CHR 0xB8, CHR 0x9B, CHR 0xE0, CHR 0xB9, CHR 0x81, CHR 0xE0,
     CHR 0xB8, CHR 0xA5, CHR 0xE0, CHR 0xB9, CHR 0x89, CHR 0xE0, CHR 0xB8, CHR 0xA7]"


section \<open>Jobs\<close>

text \<open>
  The values the source ever stores under the key \<^verbatim>\<open>"status"\<close>, and their spelling.
\<close>

datatype job_status =
  Queued | Downloading | Completed | Failed | Delivering | Downloaded | Delivered

fun status_str :: "job_status \<Rightarrow> string" where
  "status_str Queued = ''queued''"
| "status_str Downloading = ''downloading''"
| "status_str Completed = ''completed''"
| "status_str Failed = ''failed''"
| "status_str Delivering = ''delivering''"
| "status_str Downloaded = ''downloaded''"
| "status_str Delivered = ''delivered''"

text \<open>
  Readings of \<^verbatim>\<open>time.time()\<close>. They are only stored and copied, never compared, so the
  operations below take each reading as an argument.
\<close>

type_synonym timestamp = nat

text \<open>
  The dictionary built by \<^verbatim>\<open>create_job\<close>, one field per key (the key \<^verbatim>\<open>"id"\<close> is the field
  \<open>job_id\<close>). \<^verbatim>\<open>None\<close> is \<^const>\<open>None\<close>.
\<close>

record job =
  job_id :: string
  url :: string
  output_path :: string
  format :: string
  ffmpeg_location :: "string option"
  status :: job_status
  output_file :: "string option"
  download_url :: "string option"
  remote_file_id :: "string option"
  remote_file_url :: "string option"
  remote_file_view_url :: "string option"
  error :: "string option"
  created_at :: timestamp
  updated_at :: timestamp

text \<open>Python truthiness of an optional string: \<^verbatim>\<open>None\<close> and \<^verbatim>\<open>""\<close> are false.\<close>

fun truthy :: "string option \<Rightarrow> bool" where
  "truthy None = False"
| "truthy (Some s) = (s \<noteq> [])"

text \<open>
  The keyword arguments of \<^verbatim>\<open>_update_job\<close>: an ordered collection of key/value pairs over
  the keys the source ever passes.
\<close>

datatype field_update =
    SetStatus job_status
  | SetOutputFile "string option"
  | SetDownloadUrl "string option"
  | SetRemoteFileId "string option"
  | SetRemoteFileUrl "string option"
  | SetRemoteFileViewUrl "string option"
  | SetError "string option"

fun apply_update :: "field_update \<Rightarrow> job \<Rightarrow> job" where
  "apply_update (SetStatus v) j = j\<lparr>status := v\<rparr>"
| "apply_update (SetOutputFile v) j = j\<lparr>output_file := v\<rparr>"
| "apply_update (SetDownloadUrl v) j = j\<lparr>download_url := v\<rparr>"
| "apply_update (SetRemoteFileId v) j = j\<lparr>remote_file_id := v\<rparr>"
| "apply_update (SetRemoteFileUrl v) j = j\<lparr>remote_file_url := v\<rparr>"
| "apply_update (SetRemoteFileViewUrl v) j = j\<lparr>remote_file_view_url := v\<rparr>"
| "apply_update (SetError v) j = j\<lparr>error := v\<rparr>"

text \<open>\<^verbatim>\<open>job.update(updates)\<close>: the pairs are applied in order.\<close>

fun dict_update :: "field_update list \<Rightarrow> job \<Rightarrow> job" where
  "dict_update [] j = j"
| "dict_update (u # us) j = dict_update us (apply_update u j)"

section \<open>The job store (class DownloadManager)\<close>

text \<open>
  \<^verbatim>\<open>self._jobs\<close> is a dictionary from job identifiers to job dictionaries. Every method
  body runs under \<^verbatim>\<open>self._lock\<close>, so each method below is one atomic step on the map.
  A method call either returns (\<^const>\<open>Inr\<close>) or raises (\<^const>\<open>Inl\<close>).
\<close>

type_synonym jobs = "string \<rightharpoonup> job"

datatype py_error =
    KeyError string
  | FileNotFoundError string
  | RuntimeError string
  | IsADirectoryError string
  | ValueError string
  | PermissionError string

text \<open>
  \<^verbatim>\<open>create_job\<close>. The fresh \<^verbatim>\<open>uuid.uuid4().hex\<close> is the argument \<open>new_id\<close>, the two clock
  readings are \<open>t_created\<close> and \<open>t_updated\<close>, and \<open>expanded\<close> is
  \<^verbatim>\<open>str(Path(output_path or ".").expanduser())\<close>, computed by the caller's platform.
  The method returns a copy of the stored dictionary.
\<close>

definition create_job ::
  "jobs \<Rightarrow> string \<Rightarrow> timestamp \<Rightarrow> timestamp \<Rightarrow> string \<Rightarrow> string \<Rightarrow> string \<Rightarrow> string option
     \<Rightarrow> jobs \<times> job" where
  "create_job js new_id t_created t_updated url_arg expanded format_choice ffmpeg =
     (let j = \<lparr> job_id = new_id, url = url_arg, output_path = expanded,
                 format = format_choice, ffmpeg_location = ffmpeg, status = Queued,
                 output_file = None, download_url = None, remote_file_id = None,
                 remote_file_url = None, remote_file_view_url = None, error = None,
                 created_at = t_created, updated_at = t_updated \<rparr>
      in (js(new_id \<mapsto> j), j))"

text \<open>
  \<^verbatim>\<open>get_job\<close>: \<^verbatim>\<open>job.copy() if job else None\<close>. A stored job dictionary is never empty, so
  the test is a test for presence.
\<close>

definition get_job :: "jobs \<Rightarrow> string \<Rightarrow> job option" where
  "get_job js jid = js jid"

text \<open>\<^verbatim>\<open>_update_job\<close> (an Isabelle name cannot start with an underscore).\<close>

definition update_job ::
  "jobs \<Rightarrow> string \<Rightarrow> field_update list \<Rightarrow> timestamp \<Rightarrow> py_error + (jobs \<times> job)" where
  "update_job js jid updates now =
     (case js jid of
        None \<Rightarrow> Inl (KeyError jid)
      | Some j \<Rightarrow>
          (let j' = (dict_update updates j)\<lparr>updated_at := now\<rparr>
           in Inr (js(jid \<mapsto> j'), j')))"

definition mark_delivering :: "jobs \<Rightarrow> string \<Rightarrow> timestamp \<Rightarrow> py_error + jobs" where
  "mark_delivering js jid now =
     (case js jid of
        None \<Rightarrow> Inr js
      | Some j \<Rightarrow> Inr (js(jid \<mapsto> j\<lparr>status := Delivering, updated_at := now\<rparr>)))"

definition mark_downloaded :: "jobs \<Rightarrow> string \<Rightarrow> timestamp \<Rightarrow> py_error + jobs" where
  "mark_downloaded js jid now =
     (case js jid of
        None \<Rightarrow> Inr js
      | Some j \<Rightarrow> Inr (js(jid \<mapsto> j\<lparr>status := Downloaded, updated_at := now\<rparr>)))"

definition mark_file_consumed :: "jobs \<Rightarrow> string \<Rightarrow> timestamp \<Rightarrow> py_error + jobs" where
  "mark_file_consumed js jid now =
     (case js jid of
        None \<Rightarrow> Inr js
      | Some j \<Rightarrow>
          Inr (js(jid \<mapsto> j\<lparr>status := Delivered, output_file := None, download_url := None,
                           remote_file_id := None, remote_file_url := None,
                           remote_file_view_url := None, updated_at := now\<rparr>)))"

text \<open>
  The text \<^verbatim>\<open>str(exc)\<close> of an exception, as stored in the field \<open>error\<close>. For a
  \<^verbatim>\<open>KeyError\<close> it is the \<^verbatim>\<open>repr\<close> of the key: the key between apostrophes (exact for
  identifiers without quotes or backslashes, as the hexadecimal job identifiers are).
\<close>

fun exc_text :: "py_error \<Rightarrow> string" where
  "exc_text (KeyError k) = [CHR 0x27] @ k @ [CHR 0x27]"
| "exc_text (FileNotFoundError m) = m"
| "exc_text (RuntimeError m) = m"
| "exc_text (IsADirectoryError m) = m"
| "exc_text (ValueError m) = m"
| "exc_text (PermissionError m) = m"

section \<open>The environment: file system and remote relay\<close>

text \<open>
  What the code observes of the file system: which path strings name a regular file and
  which a directory. \<^verbatim>\<open>Path(p).exists()\<close> holds for both.
\<close>

datatype node = File | Dir

type_synonym fs = "string \<rightharpoonup> node"

definition exists_path :: "fs \<Rightarrow> string \<Rightarrow> bool" where
  "exists_path f p = (f p \<noteq> None)"

text \<open>
  \<^verbatim>\<open>path.unlink()\<close> inside \<^verbatim>\<open>try ... except FileNotFoundError: pass except OSError: pass\<close>:
  a regular file is removed; a missing path and a directory raise, and the exception is
  swallowed.
\<close>

definition unlink_quietly :: "fs \<Rightarrow> string \<Rightarrow> fs" where
  "unlink_quietly f p = (case f p of Some File \<Rightarrow> f(p := None) | _ \<Rightarrow> f)"

text \<open>
  The outcome of \<^verbatim>\<open>get_google_drive_client()\<close>: it raises (with the exception's text), returns
  \<^verbatim>\<open>None\<close> (no credentials configured) or returns the client (an object, always truthy).
\<close>

datatype client_outcome = ClientRaises string | NoClient | Client

text \<open>The dictionary returned by \<^verbatim>\<open>GoogleDriveClient.upload_file\<close>.\<close>

record remote_details =
  file_id :: string
  rd_download_url :: string
  view_url :: string

text \<open>
  \<^verbatim>\<open>delete_remote_file\<close>. The remote deletion itself has no effect on the job store and its
  exceptions are swallowed, so only the outcome of obtaining the client is an argument.
\<close>

definition delete_remote_file ::
  "jobs \<Rightarrow> string \<Rightarrow> client_outcome \<Rightarrow> timestamp \<Rightarrow> py_error + jobs" where
  "delete_remote_file js jid cl now =
     (case get_job js jid of
        None \<Rightarrow> Inr js
      | Some j \<Rightarrow>
          if \<not> truthy (remote_file_id j) then Inr js
          else (case cl of
                  ClientRaises _ \<Rightarrow> Inr js
                | NoClient \<Rightarrow> Inr js
                | Client \<Rightarrow>
                    (case update_job js jid
                            [SetRemoteFileId None, SetRemoteFileUrl None,
                             SetRemoteFileViewUrl None] now of
                       Inl e \<Rightarrow> Inl e
                     | Inr (js', _) \<Rightarrow> Inr js')))"

section \<open>Job execution (process_job)\<close>

text \<open>
  The updates of the success path: the dictionary \<^verbatim>\<open>updates\<close> with its two conditional
  extensions. \<^verbatim>\<open>if remote_details\<close> tests a non-empty dictionary, \<^verbatim>\<open>if remote_error\<close> an
  optional string.
\<close>

definition completed_updates ::
  "string \<Rightarrow> string \<Rightarrow> remote_details option \<Rightarrow> string option \<Rightarrow> field_update list" where
  "completed_updates jid out_file details remote_error =
     [SetStatus Completed, SetOutputFile (Some out_file),
      SetDownloadUrl (Some (''/download/'' @ jid @ ''/file''))]
     @ (case details of
          None \<Rightarrow> []
        | Some d \<Rightarrow> [SetRemoteFileId (Some (file_id d)),
                     SetRemoteFileUrl (Some (rd_download_url d)),
                     SetRemoteFileViewUrl (Some (view_url d))])
     @ (if truthy remote_error
        then [SetError (Some (''Google Drive upload failed: '' @ the remote_error))]
        else [])"

text \<open>The updates of the \<^verbatim>\<open>except Exception\<close> handler.\<close>

definition failed_updates :: "string \<Rightarrow> field_update list" where
  "failed_updates text =
     [SetStatus Failed, SetError (Some text), SetDownloadUrl None, SetRemoteFileId None,
      SetRemoteFileUrl None, SetRemoteFileViewUrl None]"

text \<open>
  The relay part of the \<^verbatim>\<open>try\<close> block: \<open>cl\<close> is the outcome of obtaining the client and
  \<open>up\<close> the outcome of \<^verbatim>\<open>upload_file\<close> (consulted only when there is a client). The result
  is the pair \<^verbatim>\<open>(remote_details, remote_error)\<close>.
\<close>

definition relay ::
  "client_outcome \<Rightarrow> string + remote_details \<Rightarrow> remote_details option \<times> string option" where
  "relay cl up =
     (let remote_error = (case cl of ClientRaises text \<Rightarrow> Some text | _ \<Rightarrow> None)
      in if cl = Client
         then (case up of
                 Inl text \<Rightarrow> (None, Some text)
               | Inr d \<Rightarrow> (Some d, remote_error))
         else (None, remote_error))"

text \<open>
  \<^verbatim>\<open>process_job\<close>. \<open>extraction\<close> is the outcome of \<^verbatim>\<open>download_video\<close>: the text of the
  exception it raised, or the path of the file it returned. \<open>t1\<close> and \<open>t2\<close> are the clock
  readings of the two updates. An exception raised by the final update is caught by the
  same handler, whose own update is outside any \<^verbatim>\<open>try\<close>.
\<close>

definition process_job ::
  "jobs \<Rightarrow> string \<Rightarrow> string + string \<Rightarrow> client_outcome \<Rightarrow> string + remote_details
     \<Rightarrow> timestamp \<Rightarrow> timestamp \<Rightarrow> py_error + jobs" where
  "process_job js jid extraction cl up t1 t2 =
     (case get_job js jid of
        None \<Rightarrow> Inr js
      | Some _ \<Rightarrow>
          (case update_job js jid [SetStatus Downloading, SetError None] t1 of
             Inl e \<Rightarrow> Inl e
           | Inr (js1, _) \<Rightarrow>
               (let handler = (\<lambda>text.
                      case update_job js1 jid (failed_updates text) t2 of
                        Inl e \<Rightarrow> Inl e
                      | Inr (js2, _) \<Rightarrow> Inr js2)
                in case extraction of
                     Inl text \<Rightarrow> handler text
                   | Inr out_file \<Rightarrow>
                       (let (details, remote_error) = relay cl up
                        in case update_job js1 jid
                                  (completed_updates jid out_file details remote_error) t2 of
                             Inl e \<Rightarrow> handler (exc_text e)
                           | Inr (js2, _) \<Rightarrow> Inr js2))))"

section \<open>Delivery and cleanup (the HTTP handlers)\<close>

text \<open>
  The result of a handler: it raises \<^verbatim>\<open>HTTPException(status_code, detail)\<close>, lets another
  exception escape, or returns.
\<close>

datatype 'a outcome = HTTPException nat string | Unhandled py_error | Returned 'a

text \<open>
  \<^verbatim>\<open>_cleanup_after_delivery\<close>: unlink, then \<^verbatim>\<open>delete_remote_file\<close>, then
  \<^verbatim>\<open>mark_file_consumed\<close>. The file system is changed even when a later call raises.
\<close>

definition cleanup_after_delivery ::
  "jobs \<Rightarrow> fs \<Rightarrow> string \<Rightarrow> string \<Rightarrow> client_outcome \<Rightarrow> timestamp \<Rightarrow> timestamp
     \<Rightarrow> (py_error + jobs) \<times> fs" where
  "cleanup_after_delivery js f jid out_path cl t1 t2 =
     (let f' = unlink_quietly f out_path
      in (case delete_remote_file js jid cl t1 of
            Inl e \<Rightarrow> (Inl e, f')
          | Inr js1 \<Rightarrow> (mark_file_consumed js1 jid t2, f')))"

text \<open>
  The deferred action attached to a \<^verbatim>\<open>FileResponse\<close>: Starlette runs it after the
  response body has been sent.
\<close>

datatype background = CleanupAfterDelivery string string | MarkDownloaded string

text \<open>
  What \<^verbatim>\<open>download_file\<close> returns: the \<^verbatim>\<open>FileResponse\<close> for a path with its background task,
  or the dictionary with the base64 payload of the file at a path.
\<close>

datatype delivery = FileResponse string background | Base64Body string

text \<open>
  The checks of \<^verbatim>\<open>download_file\<close> up to the call of \<^verbatim>\<open>mark_delivering\<close>: they read a
  snapshot of the job and the file system and either raise or yield the path to serve.
\<close>

definition allowed_statuses :: "bool \<Rightarrow> job_status set" where
  "allowed_statuses auto_delete =
     (if \<not> auto_delete then {Completed, Downloaded} else {Completed})"

definition download_checks :: "jobs \<Rightarrow> fs \<Rightarrow> string \<Rightarrow> bool \<Rightarrow> string outcome" where
  "download_checks js f jid auto_delete =
     (case get_job js jid of
        None \<Rightarrow> HTTPException 404 msg_job_not_found
      | Some j \<Rightarrow>
          if status j = Delivered then HTTPException 410 msg_gone
          else if status j = Delivering then HTTPException 409 msg_delivering
          else if status j \<notin> allowed_statuses auto_delete
          then HTTPException 409
                 (msg_not_ready @ '' (status: '' @ status_str (status j) @ '')'')
          else if \<not> truthy (output_file j) then HTTPException 404 msg_no_file_recorded
          else if \<not> exists_path f (the (output_file j))
          then HTTPException 404 msg_file_missing
          else Returned (the (output_file j)))"

text \<open>
  The rest of \<^verbatim>\<open>download_file\<close>, from \<^verbatim>\<open>mark_delivering\<close> on. With \<^verbatim>\<open>as_base64\<close> the file
  is read (\<^verbatim>\<open>read_bytes\<close> of a directory or of a missing path raises) and the cleanup or
  \<^verbatim>\<open>mark_downloaded\<close> runs before the handler returns; otherwise it is attached to the
  response as its background task.
\<close>

definition deliver ::
  "jobs \<Rightarrow> fs \<Rightarrow> string \<Rightarrow> string \<Rightarrow> bool \<Rightarrow> bool \<Rightarrow> client_outcome
     \<Rightarrow> timestamp \<Rightarrow> timestamp \<Rightarrow> timestamp \<Rightarrow> delivery outcome \<times> jobs \<times> fs" where
  "deliver js f jid file_path as_base64 auto_delete cl t1 t2 t3 =
     (case mark_delivering js jid t1 of
        Inl e \<Rightarrow> (Unhandled e, js, f)
      | Inr js1 \<Rightarrow>
          if as_base64 then
            (if f file_path \<noteq> Some File
             then (Unhandled (if f file_path = None then FileNotFoundError file_path
                              else IsADirectoryError file_path), js1, f)
             else if auto_delete then
               (case cleanup_after_delivery js1 f jid file_path cl t2 t3 of
                  (Inl e, f') \<Rightarrow> (Unhandled e, js1, f')
                | (Inr js2, f') \<Rightarrow> (Returned (Base64Body file_path), js2, f'))
             else
               (case mark_downloaded js1 jid t2 of
                  Inl e \<Rightarrow> (Unhandled e, js1, f)
                | Inr js2 \<Rightarrow> (Returned (Base64Body file_path), js2, f)))
          else
            (Returned (FileResponse file_path
                         (if auto_delete then CleanupAfterDelivery jid file_path
                          else MarkDownloaded jid)), js1, f))"

definition download_file ::
  "jobs \<Rightarrow> fs \<Rightarrow> string \<Rightarrow> bool \<Rightarrow> bool \<Rightarrow> client_outcome
     \<Rightarrow> timestamp \<Rightarrow> timestamp \<Rightarrow> timestamp \<Rightarrow> delivery outcome \<times> jobs \<times> fs" where
  "download_file js f jid as_base64 auto_delete cl t1 t2 t3 =
     (case download_checks js f jid auto_delete of
        HTTPException code detail \<Rightarrow> (HTTPException code detail, js, f)
      | Unhandled e \<Rightarrow> (Unhandled e, js, f)
      | Returned file_path \<Rightarrow> deliver js f jid file_path as_base64 auto_delete cl t1 t2 t3)"

text \<open>Running the background task of a \<^verbatim>\<open>FileResponse\<close>.\<close>

fun run_background ::
  "background \<Rightarrow> jobs \<Rightarrow> fs \<Rightarrow> client_outcome \<Rightarrow> timestamp \<Rightarrow> timestamp
     \<Rightarrow> (py_error + jobs) \<times> fs" where
  "run_background (CleanupAfterDelivery jid out_path) js f cl t1 t2 =
     cleanup_after_delivery js f jid out_path cl t1 t2"
| "run_background (MarkDownloaded jid) js f cl t1 t2 = (mark_downloaded js jid t1, f)"

text \<open>What \<^verbatim>\<open>manual_cleanup\<close> returns: one of its two dictionaries.\<close>

datatype cleanup_reply = FileDeleted string string | NothingToDelete string

definition manual_cleanup ::
  "jobs \<Rightarrow> fs \<Rightarrow> string \<Rightarrow> client_outcome \<Rightarrow> timestamp \<Rightarrow> timestamp
     \<Rightarrow> cleanup_reply outcome \<times> jobs \<times> fs" where
  "manual_cleanup js f jid cl t1 t2 =
     (case get_job js jid of
        None \<Rightarrow> (HTTPException 404 msg_no_job, js, f)
      | Some j \<Rightarrow>
          if truthy (output_file j) \<and> exists_path f (the (output_file j)) then
            (case cleanup_after_delivery js f jid (the (output_file j)) cl t1 t2 of
               (Inl e, f') \<Rightarrow> (Unhandled e, js, f')
             | (Inr js', f') \<Rightarrow>
                 (Returned (FileDeleted msg_deleted (the (output_file j))), js', f'))
          else
            (case delete_remote_file js jid cl t1 of
               Inl e \<Rightarrow> (Unhandled e, js, f)
             | Inr js1 \<Rightarrow>
                 if status j \<in> {Completed, Delivering, Downloaded} then
                   (case mark_file_consumed js1 jid t2 of
                      Inl e \<Rightarrow> (Unhandled e, js1, f)
                    | Inr js2 \<Rightarrow> (Returned (NothingToDelete msg_already_gone), js2, f))
                 else (Returned (NothingToDelete msg_already_gone), js1, f)))"

section \<open>Format presets and job submission\<close>

text \<open>
  \<^verbatim>\<open>FORMAT_PRESETS\<close>, in the order of the source: each key with the entry \<^verbatim>\<open>"format"\<close> of its
  dictionary (the entries \<^verbatim>\<open>"label"\<close> and \<^verbatim>\<open>"description"\<close> are used by the desktop front end
  only).
\<close>

definition FORMAT_PRESETS :: "(string \<times> string) list" where
  "FORMAT_PRESETS =
     [(''auto'', ''best''),
      (''merge_best'', ''bv*+ba/best''),
      (''video_only'', ''bv*''),
      (''audio_only'', ''ba/best'')]"

text \<open>\<^verbatim>\<open>valid_formats = list(FORMAT_PRESETS.keys())\<close>.\<close>

definition valid_formats :: "string list" where
  "valid_formats = map fst FORMAT_PRESETS"


text \<open>
  What the platform computes for the code and the source does not define. Each of these
  can raise:
  \<^item> \<open>resolve_path\<close> is \<^verbatim>\<open>str(Path(p).expanduser().resolve())\<close>: \<^verbatim>\<open>expanduser\<close> raises
    \<^verbatim>\<open>RuntimeError\<close> for the home of an unknown user, \<^verbatim>\<open>resolve\<close> raises \<^verbatim>\<open>ValueError\<close> for a
    path with a NUL byte;
  \<^item> \<open>expanduser_path\<close> is \<^verbatim>\<open>str(Path(p).expanduser())\<close>;
  \<^item> \<open>probe_error\<close> is the exception, if any, that \<^verbatim>\<open>is_file()\<close>, \<^verbatim>\<open>is_dir()\<close> and
    \<^verbatim>\<open>exists()\<close> raise for a path here (a \<^verbatim>\<open>PermissionError\<close> for a path below a directory that
    may not be searched).
  \<open>parent_path\<close> is \<^verbatim>\<open>str(Path(p).parent)\<close> and \<open>default_ffmpeg_dir\<close> the resolved
  \<^verbatim>\<open>DEFAULT_FFMPEG_DIR\<close>.
\<close>

record platform =
  resolve_path :: "string \<Rightarrow> py_error + string"
  parent_path :: "string \<Rightarrow> string"
  expanduser_path :: "string \<Rightarrow> py_error + string"
  probe_error :: "string \<Rightarrow> py_error option"
  default_ffmpeg_dir :: string

text \<open>
  \<^verbatim>\<open>resolve_ffmpeg_location\<close>. Its own exception is a \<^verbatim>\<open>FileNotFoundError\<close>; what the platform
  raises passes through.
\<close>

definition resolve_ffmpeg_location ::
  "platform \<Rightarrow> fs \<Rightarrow> string option \<Rightarrow> py_error + string option" where
  "resolve_ffmpeg_location plat f custom_path =
     (if truthy custom_path then
        (case resolve_path plat (the custom_path) of
           Inl e \<Rightarrow> Inl e
         | Inr candidate \<Rightarrow>
             (case probe_error plat candidate of
                Some e \<Rightarrow> Inl e
              | None \<Rightarrow>
                  if f candidate = Some File then Inr (Some (parent_path plat candidate))
                  else if f candidate = Some Dir then Inr (Some candidate)
                  else Inl (FileNotFoundError (msg_ffmpeg_not_found @ candidate))))
      else (case probe_error plat (default_ffmpeg_dir plat) of
              Some e \<Rightarrow> Inl e
            | None \<Rightarrow>
                if exists_path f (default_ffmpeg_dir plat)
                then Inr (Some (default_ffmpeg_dir plat))
                else Inr None))"

text \<open>The body of \<^verbatim>\<open>POST /download\<close> (the pydantic model \<^verbatim>\<open>DownloadRequest\<close>).\<close>

record download_request =
  req_url :: string
  req_output_path :: "string option"
  req_format :: string
  req_ffmpeg_location :: "string option"

text \<open>\<^verbatim>\<open>', '.join(valid_formats)\<close>.\<close>

fun join_comma :: "string list \<Rightarrow> string" where
  "join_comma [] = []"
| "join_comma [x] = x"
| "join_comma (x # y # ys) = x @ '', '' @ join_comma (y # ys)"

text \<open>
  \<^verbatim>\<open>enqueue_download\<close>. It returns the snapshot of the created job (the reply is a projection
  of it, with absolute URLs added) and the store; the caller schedules \<^verbatim>\<open>process_job\<close> for
  the job's identifier. \<open>new_id\<close>, \<open>t1\<close> and \<open>t2\<close> are the identifier and the clock readings
  drawn inside \<^verbatim>\<open>create_job\<close>. Only a \<^verbatim>\<open>FileNotFoundError\<close> of \<^verbatim>\<open>resolve_ffmpeg_location\<close> is
  caught and answered with 400; any other exception from it, and any exception of the
  \<^verbatim>\<open>expanduser\<close> inside \<^verbatim>\<open>create_job\<close>, escapes the handler before a job is stored.
  \<open>ffmpeg_check\<close> is the statement \<^verbatim>\<open>if payload.ffmpeg_location: resolved_ffmpeg = ...\<close>.
\<close>

definition ffmpeg_check :: "platform \<Rightarrow> fs \<Rightarrow> download_request \<Rightarrow> py_error + string option" where
  "ffmpeg_check plat f payload =
     (if truthy (req_ffmpeg_location payload)
      then resolve_ffmpeg_location plat f (req_ffmpeg_location payload)
      else Inr None)"

definition enqueue_download ::
  "platform \<Rightarrow> fs \<Rightarrow> jobs \<Rightarrow> download_request \<Rightarrow> string \<Rightarrow> timestamp \<Rightarrow> timestamp
     \<Rightarrow> job outcome \<times> jobs" where
  "enqueue_download plat f js payload new_id t1 t2 =
     (if req_format payload \<notin> set valid_formats
      then (HTTPException 400 (msg_bad_format @ join_comma valid_formats @ '')''), js)
      else
        (case ffmpeg_check plat f payload of
           Inl (FileNotFoundError m) \<Rightarrow> (HTTPException 400 m, js)
         | Inl e \<Rightarrow> (Unhandled e, js)
         | Inr resolved_ffmpeg \<Rightarrow>
             (case expanduser_path plat
                     (if truthy (req_output_path payload) then the (req_output_path payload)
                      else ''.'') of
                Inl e \<Rightarrow> (Unhandled e, js)
              | Inr expanded \<Rightarrow>
                  (let (js', j) =
                         create_job js new_id t1 t2 (req_url payload) expanded
                           (req_format payload)
                           (if truthy resolved_ffmpeg then resolved_ffmpeg
                            else req_ffmpeg_location payload)
                   in (Returned j, js')))))"

section \<open>Locating the downloaded file (_resolve_final_file)\<close>


text \<open>The part of the string before the name: empty, or ending with the separator.\<close>

definition path_dir_prefix :: "string \<Rightarrow> string" where
  "path_dir_prefix p = rev (dropWhile (\<lambda>c. c \<noteq> CHR ''/'') (rev p))"

text \<open>\<^verbatim>\<open>str(p.parent)\<close>.\<close>

definition path_parent :: "string \<Rightarrow> string" where
  "path_parent p =
     (let d = path_dir_prefix p
      in if d = [] then ''.'' else if d = ''/'' then ''/'' else butlast d)"
















section \<open>Two delivery requests, step by step\<close>

text \<open>
  \<^verbatim>\<open>download_file\<close> takes the store's lock twice: once inside \<^verbatim>\<open>get_job\<close>, for the snapshot its
  checks read, and once inside \<^verbatim>\<open>mark_delivering\<close>. Between the two the handler holds no
  lock, so another request's steps can run there. A request is therefore in one of three
  states: it has arrived, it has passed its checks (and holds the path to serve), or it is
  done.
\<close>

datatype request_state = Arrived | Checked string | Done "delivery outcome"

text \<open>The parameters of one \<^verbatim>\<open>GET /download/{job_id}/file\<close> and what its run draws from the
  environment.\<close>

record file_request =
  fr_job_id :: string
  fr_as_base64 :: bool
  fr_auto_delete :: bool
  fr_client :: client_outcome
  fr_t1 :: timestamp
  fr_t2 :: timestamp
  fr_t3 :: timestamp

definition request_step ::
  "file_request \<Rightarrow> request_state \<times> jobs \<times> fs \<Rightarrow> request_state \<times> jobs \<times> fs" where
  "request_step rq st =
     (case st of
        (Arrived, js, f) \<Rightarrow>
          (case download_checks js f (fr_job_id rq) (fr_auto_delete rq) of
             HTTPException code detail \<Rightarrow> (Done (HTTPException code detail), js, f)
           | Unhandled e \<Rightarrow> (Done (Unhandled e), js, f)
           | Returned file_path \<Rightarrow> (Checked file_path, js, f))
      | (Checked file_path, js, f) \<Rightarrow>
          (case deliver js f (fr_job_id rq) file_path (fr_as_base64 rq) (fr_auto_delete rq)
                  (fr_client rq) (fr_t1 rq) (fr_t2 rq) (fr_t3 rq) of
             (r, js', f') \<Rightarrow> (Done r, js', f'))
      | (Done r, js, f) \<Rightarrow> (Done r, js, f))"

text \<open>
  Two requests against one store. A schedule says which request takes the next step
  (\<^const>\<open>False\<close>: the first, \<^const>\<open>True\<close>: the second).
\<close>

fun interleave ::
  "file_request \<Rightarrow> file_request \<Rightarrow> bool list
     \<Rightarrow> request_state \<times> request_state \<times> jobs \<times> fs
     \<Rightarrow> request_state \<times> request_state \<times> jobs \<times> fs" where
  "interleave rq1 rq2 [] st = st"
| "interleave rq1 rq2 (second # sched) (s1, s2, js, f) =
     (if second
      then (case request_step rq2 (s2, js, f) of
              (s2', js', f') \<Rightarrow> interleave rq1 rq2 sched (s1, s2', js', f'))
      else (case request_step rq1 (s1, js, f) of
              (s1', js', f') \<Rightarrow> interleave rq1 rq2 sched (s1', s2, js', f')))"

section \<open>The service as a transition system\<close>

text \<open>
  The handlers, the job execution and the background tasks run concurrently, and each
  takes the store's lock only for the duration of one method call. The service is
  therefore modelled at that granularity: one step of the system is one call of a store
  method by one unit of work, together with the local computation that follows it up to
  the next call. What a unit still has to do is its continuation.
\<close>

subsection \<open>The execution of a job\<close>

text \<open>
  The stages of \<^verbatim>\<open>process_job\<close>: scheduled (next: \<^verbatim>\<open>get_job\<close>); the job was found (next: the
  update to \<^verbatim>\<open>downloading\<close>); extraction and relay are in progress (next: the final
  update); the final update raised and the handler is about to store the failure.
\<close>

datatype job_stage = JobQueued | JobStarting | JobExtracting | JobHandling string

text \<open>
  One store call of \<^verbatim>\<open>process_job\<close> for the job \<open>jid\<close>. The result is \<open>Inr\<close> of the next stage
  (\<^const>\<open>None\<close> when the method has returned) or \<open>Inl\<close> of the exception that has left the
  method, and the store. \<open>extraction\<close>, \<open>cl\<close> and \<open>up\<close> are consulted in the stage
  \<^const>\<open>JobExtracting\<close> only.
\<close>

fun job_step ::
  "job_stage \<Rightarrow> string \<Rightarrow> string + string \<Rightarrow> client_outcome \<Rightarrow> string + remote_details
     \<Rightarrow> timestamp \<Rightarrow> jobs \<Rightarrow> (py_error + job_stage option) \<times> jobs" where
  "job_step JobQueued jid extraction cl up now js =
     (case get_job js jid of
        None \<Rightarrow> (Inr None, js)
      | Some _ \<Rightarrow> (Inr (Some JobStarting), js))"
| "job_step JobStarting jid extraction cl up now js =
     (case update_job js jid [SetStatus Downloading, SetError None] now of
        Inl e \<Rightarrow> (Inl e, js)
      | Inr (js1, _) \<Rightarrow> (Inr (Some JobExtracting), js1))"
| "job_step JobExtracting jid extraction cl up now js =
     (case extraction of
        Inl msg \<Rightarrow>
          (case update_job js jid (failed_updates msg) now of
             Inl e \<Rightarrow> (Inl e, js)
           | Inr (js2, _) \<Rightarrow> (Inr None, js2))
      | Inr out_file \<Rightarrow>
          (let (details, remote_error) = relay cl up
           in case update_job js jid
                     (completed_updates jid out_file details remote_error) now of
                Inl e \<Rightarrow> (Inr (Some (JobHandling (exc_text e))), js)
              | Inr (js2, _) \<Rightarrow> (Inr None, js2)))"
| "job_step (JobHandling msg) jid extraction cl up now js =
     (case update_job js jid (failed_updates msg) now of
        Inl e \<Rightarrow> (Inl e, js)
      | Inr (js2, _) \<Rightarrow> (Inr None, js2))"

subsection \<open>Requests and their background tasks\<close>

text \<open>
  The continuations of \<^verbatim>\<open>download_file\<close>, \<^verbatim>\<open>manual_cleanup\<close>, \<^verbatim>\<open>_cleanup_after_delivery\<close> and
  \<^verbatim>\<open>delete_remote_file\<close>, each named after the store call it is about to make:
  \<^item> \<open>FileArrived\<close>: \<^verbatim>\<open>download_file\<close> is about to call \<^verbatim>\<open>get_job\<close> and run its checks;
  \<^item> \<open>FileChecked\<close>: the checks have passed, next is \<^verbatim>\<open>mark_delivering\<close>;
  \<^item> \<open>Cleaning\<close>: \<^verbatim>\<open>_cleanup_after_delivery\<close> is about to unlink the file and call
    \<^verbatim>\<open>delete_remote_file\<close>, whose first store call is \<^verbatim>\<open>get_job\<close>;
  \<^item> \<open>RemoteLookup\<close>: \<^verbatim>\<open>delete_remote_file\<close> is about to call \<^verbatim>\<open>get_job\<close>; the flag says whether
    \<^verbatim>\<open>mark_file_consumed\<close> follows it;
  \<^item> \<open>RemoteClearing\<close>: \<^verbatim>\<open>delete_remote_file\<close> is about to clear the remote fields with
    \<^verbatim>\<open>_update_job\<close>; the flag is as before;
  \<^item> \<open>Consuming\<close>: next is \<^verbatim>\<open>mark_file_consumed\<close>;
  \<^item> \<open>MarkingDownloaded\<close>: next is \<^verbatim>\<open>mark_downloaded\<close>;
  \<^item> \<open>CleanupArrived\<close>: \<^verbatim>\<open>manual_cleanup\<close> is about to call \<^verbatim>\<open>get_job\<close>.
  The background task of a \<^verbatim>\<open>FileResponse\<close> is the continuation \<open>Cleaning\<close> or
  \<open>MarkingDownloaded\<close> of the request that returned it: it takes its step whenever the
  response body has been sent.
\<close>

datatype task =
    FileArrived string bool bool
  | FileChecked string string bool bool
  | Cleaning string string
  | RemoteLookup string bool
  | RemoteClearing string bool
  | Consuming string
  | MarkingDownloaded string
  | CleanupArrived string

text \<open>What follows \<^verbatim>\<open>delete_remote_file\<close>.\<close>

definition after_remote :: "string \<Rightarrow> bool \<Rightarrow> task option" where
  "after_remote jid then_consume = (if then_consume then Some (Consuming jid) else None)"

text \<open>
  \<^verbatim>\<open>delete_remote_file\<close> up to its update: \<^verbatim>\<open>get_job\<close>, the test of \<^verbatim>\<open>remote_file_id\<close>, and
  obtaining the client (whose \<^verbatim>\<open>delete_file\<close> swallows its exceptions).
\<close>

definition remote_lookup :: "string \<Rightarrow> bool \<Rightarrow> client_outcome \<Rightarrow> jobs \<Rightarrow> task option" where
  "remote_lookup jid then_consume cl js =
     (case get_job js jid of
        None \<Rightarrow> after_remote jid then_consume
      | Some j \<Rightarrow>
          if \<not> truthy (remote_file_id j) then after_remote jid then_consume
          else (case cl of
                  ClientRaises _ \<Rightarrow> after_remote jid then_consume
                | NoClient \<Rightarrow> after_remote jid then_consume
                | Client \<Rightarrow> Some (RemoteClearing jid then_consume)))"

text \<open>
  One store call of a request or background task, with the file operations around it.
  The result is the continuation (\<^const>\<open>None\<close> when the unit has finished or an exception
  has ended it), the store and the file system.
\<close>

fun task_step ::
  "task \<Rightarrow> client_outcome \<Rightarrow> timestamp \<Rightarrow> jobs \<Rightarrow> fs \<Rightarrow> task option \<times> jobs \<times> fs" where
  "task_step (FileArrived jid as_base64 auto_delete) cl now js f =
     (case download_checks js f jid auto_delete of
        Returned file_path \<Rightarrow> (Some (FileChecked jid file_path as_base64 auto_delete), js, f)
      | _ \<Rightarrow> (None, js, f))"
| "task_step (FileChecked jid file_path as_base64 auto_delete) cl now js f =
     (case mark_delivering js jid now of
        Inl e \<Rightarrow> (None, js, f)
      | Inr js1 \<Rightarrow>
          if as_base64 \<and> f file_path \<noteq> Some File then (None, js1, f)
          else (Some (if auto_delete then Cleaning jid file_path else MarkingDownloaded jid),
                js1, f))"
| "task_step (Cleaning jid out_path) cl now js f =
     (remote_lookup jid True cl js, js, unlink_quietly f out_path)"
| "task_step (RemoteLookup jid then_consume) cl now js f =
     (remote_lookup jid then_consume cl js, js, f)"
| "task_step (RemoteClearing jid then_consume) cl now js f =
     (case update_job js jid
             [SetRemoteFileId None, SetRemoteFileUrl None, SetRemoteFileViewUrl None] now of
        Inl e \<Rightarrow> (None, js, f)
      | Inr (js', _) \<Rightarrow> (after_remote jid then_consume, js', f))"
| "task_step (Consuming jid) cl now js f =
     (case mark_file_consumed js jid now of
        Inl e \<Rightarrow> (None, js, f)
      | Inr js' \<Rightarrow> (None, js', f))"
| "task_step (MarkingDownloaded jid) cl now js f =
     (case mark_downloaded js jid now of
        Inl e \<Rightarrow> (None, js, f)
      | Inr js' \<Rightarrow> (None, js', f))"
| "task_step (CleanupArrived jid) cl now js f =
     (case get_job js jid of
        None \<Rightarrow> (None, js, f)
      | Some j \<Rightarrow>
          if truthy (output_file j) \<and> exists_path f (the (output_file j))
          then (Some (Cleaning jid (the (output_file j))), js, f)
          else (Some (RemoteLookup jid (status j \<in> {Completed, Delivering, Downloaded})),
                js, f))"

subsection \<open>The system\<close>

text \<open>
  The state of the running service: the job store, the file system, the stage of every
  job execution in progress, and the continuations of the requests and background tasks
  in progress.
\<close>

record system =
  store :: jobs
  files :: fs
  running :: "string \<rightharpoonup> job_stage"
  tasks :: "task list"

text \<open>
  What can happen next: a submission (\<^verbatim>\<open>enqueue_download\<close> makes its one store call inside
  \<^verbatim>\<open>create_job\<close> and schedules \<^verbatim>\<open>process_job\<close> once); a step of a job execution; the
  arrival of a delivery request or of a cleanup request; a step of the request or
  background task at a position of the list; a change of the file system from outside
  (the engine writing, an operator deleting).
\<close>

datatype event =
    PostDownload download_request string timestamp timestamp
  | AdvanceJob string "string + string" client_outcome "string + remote_details" timestamp
  | GetFile string bool bool
  | DeleteCleanup string
  | Advance nat client_outcome timestamp
  | FilesChange fs

text \<open>
  One step. The result is \<^const>\<open>None\<close> when the event cannot happen: a \<^verbatim>\<open>uuid4\<close> that
  repeats an identifier of the store, a step of a job that is not being executed, a
  position beyond the list. \<^verbatim>\<open>download_video\<close> returns a path only after checking that it
  exists, so a successful extraction leaves its file in the file system.
\<close>

fun step :: "platform \<Rightarrow> event \<Rightarrow> system \<Rightarrow> system option" where
  "step plat (PostDownload payload new_id t1 t2) s =
     (if new_id \<in> dom (store s) then None
      else (case enqueue_download plat (files s) (store s) payload new_id t1 t2 of
              (Returned j, js') \<Rightarrow>
                Some (s\<lparr>store := js', running := (running s)(job_id j \<mapsto> JobQueued)\<rparr>)
            | (_, js') \<Rightarrow> Some (s\<lparr>store := js'\<rparr>)))"
| "step plat (AdvanceJob jid extraction cl up now) s =
     (case running s jid of
        None \<Rightarrow> None
      | Some stage \<Rightarrow>
          (case job_step stage jid extraction cl up now (store s) of
             (r, js') \<Rightarrow>
               Some (s\<lparr>store := js',
                       files := (case (stage, extraction) of
                                   (JobExtracting, Inr p) \<Rightarrow> (files s)(p \<mapsto> File)
                                 | _ \<Rightarrow> files s),
                       running := (running s)(jid := (case r of Inl e \<Rightarrow> None
                                                      | Inr stage' \<Rightarrow> stage'))\<rparr>)))"
| "step plat (GetFile jid as_base64 auto_delete) s =
     Some (s\<lparr>tasks := tasks s @ [FileArrived jid as_base64 auto_delete]\<rparr>)"
| "step plat (DeleteCleanup jid) s =
     Some (s\<lparr>tasks := tasks s @ [CleanupArrived jid]\<rparr>)"
| "step plat (Advance i cl now) s =
     (if length (tasks s) \<le> i then None
      else (case task_step (tasks s ! i) cl now (store s) (files s) of
              (t', js', f') \<Rightarrow>
                Some (s\<lparr>store := js', files := f',
                        tasks := (case t' of
                                    None \<Rightarrow> take i (tasks s) @ drop (Suc i) (tasks s)
                                  | Some t \<Rightarrow> (tasks s)[i := t])\<rparr>)))"
| "step plat (FilesChange f') s = Some (s\<lparr>files := f'\<rparr>)"

fun run :: "platform \<Rightarrow> event list \<Rightarrow> system \<Rightarrow> system option" where
  "run plat [] s = Some s"
| "run plat (ev # evs) s =
     (case step plat ev s of None \<Rightarrow> None | Some s' \<Rightarrow> run plat evs s')"

text \<open>The service starts with an empty store and nothing in progress.\<close>

definition initial :: "fs \<Rightarrow> system" where
  "initial f = \<lparr>store = Map.empty, files = f, running = Map.empty, tasks = []\<rparr>"

inductive reachable :: "platform \<Rightarrow> system \<Rightarrow> bool" for plat :: platform where
  start: "reachable plat (initial f)"
| after: "reachable plat s \<Longrightarrow> step plat ev s = Some s' \<Longrightarrow> reachable plat s'"

subsection \<open>What holds in every reachable state\<close>

text \<open>The five artifact-pointing fields of a job are all \<^verbatim>\<open>None\<close>.\<close>

definition no_artifact :: "job \<Rightarrow> bool" where
  "no_artifact j =
     (output_file j = None \<and> download_url j = None \<and> remote_file_id j = None
      \<and> remote_file_url j = None \<and> remote_file_view_url j = None)"

text \<open>The job a continuation is about.\<close>

fun task_job :: "task \<Rightarrow> string" where
  "task_job (FileArrived jid _ _) = jid"
| "task_job (FileChecked jid _ _ _) = jid"
| "task_job (Cleaning jid _) = jid"
| "task_job (RemoteLookup jid _) = jid"
| "task_job (RemoteClearing jid _) = jid"
| "task_job (Consuming jid) = jid"
| "task_job (MarkingDownloaded jid) = jid"
| "task_job (CleanupArrived jid) = jid"

text \<open>
  A continuation is committed when it will write the status of its job whatever the
  store holds by then: it has passed the checks of \<^verbatim>\<open>download_file\<close>, or \<^verbatim>\<open>manual_cleanup\<close> has
  decided on its snapshot that \<^verbatim>\<open>mark_file_consumed\<close> follows.
\<close>

fun committed :: "task \<Rightarrow> bool" where
  "committed (FileArrived _ _ _) = False"
| "committed (FileChecked _ _ _ _) = True"
| "committed (Cleaning _ _) = True"
| "committed (RemoteLookup _ then_consume) = then_consume"
| "committed (RemoteClearing _ then_consume) = then_consume"
| "committed (Consuming _) = True"
| "committed (MarkingDownloaded _) = True"
| "committed (CleanupArrived _) = False"

text \<open>A job as it is while its execution is in progress.\<close>

definition in_progress :: "job \<Rightarrow> bool" where
  "in_progress j = ((status j = Queued \<or> status j = Downloading) \<and> no_artifact j)"

text \<open>
  The invariant: a job whose execution is in progress is \<^verbatim>\<open>queued\<close> or \<^verbatim>\<open>downloading\<close> and
  points to no artifact; a committed continuation is about a stored job whose execution
  is over; a \<^verbatim>\<open>delivered\<close> job points to no artifact.
\<close>

definition system_inv :: "system \<Rightarrow> bool" where
  "system_inv s =
     ((\<forall>jid stage. running s jid = Some stage \<longrightarrow> (\<exists>j. store s jid = Some j \<and> in_progress j))
      \<and> (\<forall>t \<in> set (tasks s).
            committed t \<longrightarrow> task_job t \<in> dom (store s) \<and> running s (task_job t) = None)
      \<and> (\<forall>jid j. store s jid = Some j \<and> status j = Delivered \<longrightarrow> no_artifact j))"

text \<open>A job that is stored, whose execution is over, and that points to no artifact.\<close>

definition settled :: "system \<Rightarrow> string \<Rightarrow> bool" where
  "settled s jid = (running s jid = None \<and> (\<exists>j. store s jid = Some j \<and> no_artifact j))"

section \<open>How the requests change a job\<close>

text \<open>
  The relation between a job before and after a store call of a request or background
  task: artifact fields that are \<^verbatim>\<open>None\<close> stay \<^verbatim>\<open>None\<close>, and a job that becomes (or stays)
  \<^verbatim>\<open>delivered\<close> points to no artifact. A continuation that is not committed moreover leaves
  the status as it is.
\<close>

definition job_evolves :: "job \<Rightarrow> job \<Rightarrow> bool" where
  "job_evolves j j' =
     ((no_artifact j \<longrightarrow> no_artifact j')
      \<and> ((status j = Delivered \<longrightarrow> no_artifact j) \<longrightarrow> (status j' = Delivered \<longrightarrow> no_artifact j')))"

definition job_kept :: "job \<Rightarrow> job \<Rightarrow> bool" where
  "job_kept j j' = (status j' = status j \<and> (no_artifact j \<longrightarrow> no_artifact j'))"

text \<open>
  A store call about the job \<open>jid\<close>: every other entry is untouched, no entry appears or
  disappears, and the job itself evolves as above.
\<close>

definition touches :: "string \<Rightarrow> jobs \<Rightarrow> jobs \<Rightarrow> bool" where
  "touches jid js js' =
     ((\<forall>k. k \<noteq> jid \<longrightarrow> js' k = js k)
      \<and> (case js jid of
            None \<Rightarrow> js' jid = None
          | Some j \<Rightarrow> (\<exists>j'. js' jid = Some j' \<and> job_evolves j j')))"

section \<open>Example data\<close>

text \<open>
  A job as \<^verbatim>\<open>create_job\<close> and \<^verbatim>\<open>process_job\<close> leave it, with a given status and output file,
  and a platform on which no user's home directory is known and every other path is
  already expanded and resolved, for evaluating the operations.
\<close>

definition example_job :: "string \<Rightarrow> job_status \<Rightarrow> string option \<Rightarrow> job" where
  "example_job jid st out =
     \<lparr> job_id = jid, url = ''https://example.org/v'', output_path = ''/tmp'',
       format = ''auto'', ffmpeg_location = None, status = st, output_file = out,
       download_url = (if out = None then None else Some (''/download/'' @ jid @ ''/file'')),
       remote_file_id = None, remote_file_url = None, remote_file_view_url = None,
       error = None, created_at = 1, updated_at = 2 \<rparr>"

definition example_platform :: platform where
  "example_platform =
     \<lparr> resolve_path =
         (\<lambda>p. if take 1 p = ''~'' then Inl (RuntimeError ''Could not determine home directory.'')
              else Inr p),
       parent_path = path_parent,
       expanduser_path =
         (\<lambda>p. if take 1 p = ''~'' then Inl (RuntimeError ''Could not determine home directory.'')
              else Inr p),
       probe_error = (\<lambda>p. None),
       default_ffmpeg_dir = ''/app/ffmpeg/bin'' \<rparr>"

definition example_request :: "string \<Rightarrow> download_request" where
  "example_request fmt =
     \<lparr> req_url = ''https://example.org/v'', req_output_path = Some ''/tmp'',
       req_format = fmt, req_ffmpeg_location = None \<rparr>"

text \<open>
  A store with one \<^verbatim>\<open>completed\<close> job whose file is on disk, and two delivery requests for it:
  one with the default parameters, one asking for the base64 body and keeping the file.
\<close>

definition example_store :: jobs where
  "example_store = [''a1'' \<mapsto> example_job ''a1'' Completed (Some ''/tmp/v.mp4'')]"

definition example_files :: fs where
  "example_files = [''/tmp/v.mp4'' \<mapsto> File]"

definition stream_request :: file_request where
  "stream_request =
     \<lparr> fr_job_id = ''a1'', fr_as_base64 = False, fr_auto_delete = True,
       fr_client = NoClient, fr_t1 = 5, fr_t2 = 6, fr_t3 = 7 \<rparr>"

definition inline_request :: file_request where
  "inline_request =
     \<lparr> fr_job_id = ''a1'', fr_as_base64 = True, fr_auto_delete = False,
       fr_client = NoClient, fr_t1 = 5, fr_t2 = 6, fr_t3 = 7 \<rparr>"

text \<open>
  A run of the service, store call by store call: a job is submitted and executed (three
  steps of \<^verbatim>\<open>process_job\<close>); its file is requested as a stream with \<^verbatim>\<open>auto_delete=false\<close> (the
  checks, then \<^verbatim>\<open>mark_delivering\<close>, after which the response is being sent and its background
  task is outstanding); a manual cleanup arrives and runs to its end (\<^verbatim>\<open>get_job\<close>, unlink and
  \<^verbatim>\<open>delete_remote_file\<close>, \<^verbatim>\<open>mark_file_consumed\<close>); then the background task of the response
  runs.
\<close>

definition example_trace :: "event list" where
  "example_trace =
     [PostDownload (example_request ''auto'') ''a1'' 1 2,
      AdvanceJob ''a1'' (Inr ''/tmp/v.mp4'') NoClient (Inl []) 3,
      AdvanceJob ''a1'' (Inr ''/tmp/v.mp4'') NoClient (Inl []) 3,
      AdvanceJob ''a1'' (Inr ''/tmp/v.mp4'') NoClient (Inl []) 4,
      GetFile ''a1'' False False,
      Advance 0 NoClient 5,
      Advance 0 NoClient 5,
      DeleteCleanup ''a1'',
      Advance 1 NoClient 8,
      Advance 1 NoClient 8,
      Advance 1 NoClient 9,
      Advance 0 NoClient 10]"

section \<open>Facts about the delivery checks\<close>

text \<open>The chain of checks of \<^verbatim>\<open>download_file\<close>, with the allowed set written out.\<close>

lemma download_checks_cases:
  "download_checks js f jid auto_delete =
     (case js jid of
        None \<Rightarrow> HTTPException 404 msg_job_not_found
      | Some j \<Rightarrow>
          if status j = Delivered then HTTPException 410 msg_gone
          else if status j = Delivering then HTTPException 409 msg_delivering
          else if \<not> (status j = Completed \<or> (status j = Downloaded \<and> \<not> auto_delete))
          then HTTPException 409
                 (msg_not_ready @ '' (status: '' @ status_str (status j) @ '')'')
          else (case output_file j of
                  None \<Rightarrow> HTTPException 404 msg_no_file_recorded
                | Some p \<Rightarrow> if p = [] then HTTPException 404 msg_no_file_recorded
                            else if \<not> exists_path f p then HTTPException 404 msg_file_missing
                            else Returned p))"
  by (auto simp: download_checks_def get_job_def allowed_statuses_def split: option.splits)

text \<open>Once the checks have passed, no \<^verbatim>\<open>HTTPException\<close> is raised any more.\<close>

lemma deliver_not_http:
  "deliver js f jid p b64 ad cl t1 t2 t3 = (r, js', f') \<Longrightarrow> r \<noteq> HTTPException c d"
  by (auto simp: deliver_def mark_delivering_def mark_downloaded_def cleanup_after_delivery_def
      split: option.splits if_splits sum.splits prod.splits)

lemma download_file_rejected:
  assumes "download_file js f jid b64 ad cl t1 t2 t3 = (HTTPException c d, js', f')"
  shows "download_checks js f jid ad = HTTPException c d \<and> js' = js \<and> f' = f"
  using assms
  by (auto simp: download_file_def split: outcome.splits dest: deliver_not_http)

lemma download_checks_codes:
  "download_checks js f jid ad = HTTPException c d \<Longrightarrow> c \<in> {404, 409, 410}"
  by (auto simp: download_checks_cases split: option.splits if_splits)

section \<open>Facts about job submission\<close>



lemma enqueue_bad_format:
  "req_format payload \<notin> set valid_formats \<Longrightarrow>
   enqueue_download plat f js payload new_id t1 t2 =
     (HTTPException 400 (msg_bad_format @ join_comma valid_formats @ '')''), js)"
  by (simp add: enqueue_download_def)



lemma enqueue_creates:
  assumes "req_format payload \<in> set valid_formats"
    and "ffmpeg_check plat f payload = Inr resolved"
    and "expanduser_path plat
           (if truthy (req_output_path payload) then the (req_output_path payload) else ''.'')
         = Inr expanded"
  shows "\<exists>j. enqueue_download plat f js payload new_id t1 t2 = (Returned j, js(new_id \<mapsto> j))
            \<and> job_id j = new_id \<and> status j = Queued \<and> format j = req_format payload
            \<and> output_path j = expanded \<and> no_artifact j"
  using assms
  by (simp add: enqueue_download_def create_job_def no_artifact_def Let_def)

text \<open>Whatever happens, a submission leaves the store alone or adds one fresh job.\<close>

lemma enqueue_download_cases:
  assumes "enqueue_download plat f js payload new_id t1 t2 = (r, js')"
  shows "(js' = js \<and> (\<forall>j. r \<noteq> Returned j))
       \<or> (\<exists>j. r = Returned j \<and> js' = js(new_id \<mapsto> j) \<and> job_id j = new_id
               \<and> status j = Queued \<and> no_artifact j)"
proof (cases "req_format payload \<in> set valid_formats")
  case False
  with assms enqueue_bad_format [OF False, of plat f js new_id t1 t2] show ?thesis by auto
next
  case ok: True
  show ?thesis
  proof (cases "ffmpeg_check plat f payload")
    case (Inl e)
    with ok assms show ?thesis
      by (cases e) (auto simp add: enqueue_download_def)
  next
    case (Inr resolved)
    show ?thesis
    proof (cases "expanduser_path plat
           (if truthy (req_output_path payload) then the (req_output_path payload) else ''.'')")
      case (Inl e)
      with ok Inr assms show ?thesis
        by (auto simp add: enqueue_download_def)
    next
      case expanded: (Inr p)
      from enqueue_creates [OF ok Inr expanded, of js new_id t1 t2] assms show ?thesis
        by auto
    qed
  qed
qed

text \<open>
  An ffmpeg location below the home of an unknown user: \<^verbatim>\<open>expanduser\<close> raises
  \<^verbatim>\<open>RuntimeError\<close>, which \<^verbatim>\<open>except FileNotFoundError\<close> does not catch.
\<close>

lemma unknown_home_escapes:
  "enqueue_download example_platform Map.empty Map.empty
     ((example_request ''auto'')\<lparr>req_ffmpeg_location := Some ''~nosuchuser/ffmpeg''\<rparr>) ''a1'' 1 2
   = (Unhandled (RuntimeError ''Could not determine home directory.''), Map.empty)"
  by (simp add: enqueue_download_def ffmpeg_check_def resolve_ffmpeg_location_def
      example_request_def example_platform_def valid_formats_def FORMAT_PRESETS_def)

section \<open>Facts about the store operations\<close>

lemma job_evolves_refl: "job_evolves j j"
  by (simp add: job_evolves_def)

lemma job_evolves_trans: "job_evolves a b \<Longrightarrow> job_evolves b c \<Longrightarrow> job_evolves a c"
  by (auto simp add: job_evolves_def)

lemma touches_refl: "touches jid js js"
  by (simp add: touches_def job_evolves_refl split: option.splits)

lemma touches_trans: "touches jid a b \<Longrightarrow> touches jid b c \<Longrightarrow> touches jid a c"
  by (fastforce simp add: touches_def split: option.splits intro: job_evolves_trans)

lemma touches_upd:
  "js jid = Some j \<Longrightarrow> job_evolves j j' \<Longrightarrow> touches jid js (js(jid \<mapsto> j'))"
  by (simp add: touches_def)

lemma mark_delivering_touches:
  "mark_delivering js jid t = Inr js' \<Longrightarrow> touches jid js js'"
  by (auto simp add: mark_delivering_def touches_def job_evolves_def no_artifact_def
      split: option.splits)

lemma mark_downloaded_touches:
  "mark_downloaded js jid t = Inr js' \<Longrightarrow> touches jid js js'"
  by (auto simp add: mark_downloaded_def touches_def job_evolves_def no_artifact_def
      split: option.splits)

lemma mark_file_consumed_touches:
  "mark_file_consumed js jid t = Inr js' \<Longrightarrow> touches jid js js'"
  by (auto simp add: mark_file_consumed_def touches_def job_evolves_def no_artifact_def
      split: option.splits)

lemma update_job_Some:
  "js jid = Some j \<Longrightarrow>
   update_job js jid us t
     = Inr (js(jid \<mapsto> (dict_update us j)\<lparr>updated_at := t\<rparr>),
            (dict_update us j)\<lparr>updated_at := t\<rparr>)"
  by (simp add: update_job_def Let_def)

lemma update_job_None: "js jid = None \<Longrightarrow> update_job js jid us t = Inl (KeyError jid)"
  by (simp add: update_job_def)

lemma touches_other: "touches jid js js' \<Longrightarrow> k \<noteq> jid \<Longrightarrow> js' k = js k"
  by (simp add: touches_def)

lemma touches_dom: "touches jid js js' \<Longrightarrow> dom js' = dom js"
proof (rule set_eqI)
  fix k assume t: "touches jid js js'"
  show "k \<in> dom js' \<longleftrightarrow> k \<in> dom js"
  proof (cases "k = jid")
    case True
    with t show ?thesis by (auto simp add: touches_def split: option.splits)
  next
    case False
    with t show ?thesis by (simp add: touches_def dom_def)
  qed
qed

lemma touches_job:
  assumes "touches jid js js'" and "js k = Some j"
  shows "\<exists>j'. js' k = Some j' \<and> job_evolves j j'"
proof (cases "k = jid")
  case True
  with assms show ?thesis by (auto simp add: touches_def)
next
  case False
  with assms show ?thesis by (auto simp add: touches_def job_evolves_refl)
qed

lemma touches_back:
  assumes "touches jid js js'" and "js' k = Some j'"
  shows "\<exists>j. js k = Some j \<and> job_evolves j j'"
proof -
  from assms have "k \<in> dom js" using touches_dom by blast
  then obtain j where j: "js k = Some j" by auto
  with touches_job [OF assms(1) j] assms(2) show ?thesis by auto
qed

lemma touches_delivered:
  assumes "touches jid js js'"
    and "\<forall>k j. js k = Some j \<and> status j = Delivered \<longrightarrow> no_artifact j"
  shows "\<forall>k j. js' k = Some j \<and> status j = Delivered \<longrightarrow> no_artifact j"
proof (intro allI impI)
  fix k j' assume a: "js' k = Some j' \<and> status j' = Delivered"
  with touches_back [OF assms(1)] obtain j where "js k = Some j" "job_evolves j j'" by blast
  with assms(2) a show "no_artifact j'" by (auto simp add: job_evolves_def)
qed

lemma process_job_absent:
  "js jid = None \<Longrightarrow> process_job js jid ext cl up t1 t2 = Inr js"
  by (simp add: process_job_def get_job_def)

lemma process_job_failure:
  assumes "js jid = Some j"
  shows "process_job js jid (Inl text) cl up t1 t2
    = Inr (js(jid \<mapsto> j\<lparr>status := Failed, error := Some text, download_url := None,
                          remote_file_id := None, remote_file_url := None,
                          remote_file_view_url := None, updated_at := t2\<rparr>))"
  using assms
  by (simp add: process_job_def get_job_def update_job_Some failed_updates_def)

lemma dict_update_append: "dict_update (us @ vs) j = dict_update vs (dict_update us j)"
  by (induction us arbitrary: j) simp_all

lemma process_job_success:
  assumes "js jid = Some j"
  shows "\<exists>j'. process_job js jid (Inr out) cl up t1 t2 = Inr (js(jid \<mapsto> j'))
           \<and> status j' = Completed \<and> output_file j' = Some out
           \<and> download_url j' = Some (''/download/'' @ jid @ ''/file'')
           \<and> error j' = (if truthy (snd (relay cl up))
                          then Some (''Google Drive upload failed: '' @ the (snd (relay cl up)))
                          else None)"
  using assms
  by (cases "relay cl up")
     (auto simp add: process_job_def get_job_def update_job_Some completed_updates_def
        dict_update_append split: option.splits)

lemma process_job_effect:
  assumes "js jid = Some j"
  shows "\<exists>j'. process_job js jid ext cl up t1 t2 = Inr (js(jid \<mapsto> j'))
           \<and> (status j' = Completed \<or> status j' = Failed)"
proof (cases ext)
  case (Inl msg)
  let ?j' = "j\<lparr>status := Failed, error := Some msg, download_url := None,
                remote_file_id := None, remote_file_url := None,
                remote_file_view_url := None, updated_at := t2\<rparr>"
  have "process_job js jid ext cl up t1 t2 = Inr (js(jid \<mapsto> ?j'))"
    using Inl process_job_failure [of js jid j, OF assms] by simp
  moreover have "status ?j' = Failed" by simp
  ultimately show ?thesis by blast
next
  case (Inr out)
  then show ?thesis using process_job_success [of js jid j out cl up t1 t2, OF assms] by auto
qed


section \<open>The invariant of the service\<close>

lemma inv_running:
  "system_inv s \<Longrightarrow> running s jid = Some stage \<Longrightarrow>
   \<exists>j. store s jid = Some j \<and> in_progress j"
  unfolding system_inv_def by blast

lemma inv_task:
  "system_inv s \<Longrightarrow> t \<in> set (tasks s) \<Longrightarrow> committed t \<Longrightarrow>
   task_job t \<in> dom (store s) \<and> running s (task_job t) = None"
  unfolding system_inv_def by blast

lemma inv_delivered:
  "system_inv s \<Longrightarrow> store s jid = Some j \<Longrightarrow> status j = Delivered \<Longrightarrow> no_artifact j"
  unfolding system_inv_def by blast

lemma system_invI:
  assumes "\<And>jid stage. running s jid = Some stage \<Longrightarrow>
             \<exists>j. store s jid = Some j \<and> in_progress j"
    and "\<And>t. t \<in> set (tasks s) \<Longrightarrow> committed t \<Longrightarrow>
             task_job t \<in> dom (store s) \<and> running s (task_job t) = None"
    and "\<And>jid j. store s jid = Some j \<Longrightarrow> status j = Delivered \<Longrightarrow> no_artifact j"
  shows "system_inv s"
  using assms unfolding system_inv_def by blast

lemma inv_not_running:
  assumes "system_inv s" and "store s jid = Some j" and "\<not> in_progress j"
  shows "running s jid = None"
proof (cases "running s jid")
  case None
  then show ?thesis .
next
  case (Some stage)
  from inv_running [OF assms(1) Some] assms(2,3) show ?thesis by simp
qed

subsection \<open>Steps of requests and background tasks\<close>

lemma job_kept_evolves: "job_kept j j' \<Longrightarrow> job_evolves j j'"
  by (auto simp add: job_kept_def job_evolves_def)

lemma job_kept_refl: "job_kept j j"
  by (simp add: job_kept_def)

lemma job_kept_in_progress: "job_kept j j' \<Longrightarrow> in_progress j \<Longrightarrow> in_progress j'"
  by (auto simp add: job_kept_def in_progress_def)

lemma clear_remote_kept:
  "job_kept j
     ((dict_update [SetRemoteFileId None, SetRemoteFileUrl None, SetRemoteFileViewUrl None] j)
        \<lparr>updated_at := t\<rparr>)"
  by (simp add: job_kept_def no_artifact_def)

lemma clear_remote_touches:
  assumes "update_job js jid
             [SetRemoteFileId None, SetRemoteFileUrl None, SetRemoteFileViewUrl None] t
           = Inr (js', j')"
  shows "touches jid js js'"
proof (cases "js jid")
  case None
  with assms show ?thesis by (simp add: update_job_None)
next
  case (Some j)
  with assms update_job_Some [of js jid j]
  have "js' = js(jid \<mapsto> (dict_update
          [SetRemoteFileId None, SetRemoteFileUrl None, SetRemoteFileViewUrl None] j)
          \<lparr>updated_at := t\<rparr>)"
    by auto
  with Some clear_remote_kept [of j t] show ?thesis
    by (simp add: touches_upd job_kept_evolves)
qed

lemma task_step_touches:
  assumes "task_step t cl now js f = (t', js', f')"
  shows "touches (task_job t) js js'"
proof (cases t)
  case (FileArrived jid b64 ad)
  with assms show ?thesis by (auto simp add: touches_refl split: outcome.splits)
next
  case (FileChecked jid p b64 ad)
  with assms show ?thesis
    by (auto simp add: touches_refl mark_delivering_touches split: sum.splits if_splits)
next
  case (Cleaning jid p)
  with assms show ?thesis by (auto simp add: touches_refl)
next
  case (RemoteLookup jid c)
  with assms show ?thesis by (auto simp add: touches_refl)
next
  case (RemoteClearing jid c)
  with assms show ?thesis
    by (auto simp add: touches_refl clear_remote_touches split: sum.splits)
next
  case (Consuming jid)
  with assms show ?thesis
    by (auto simp add: touches_refl mark_file_consumed_touches split: sum.splits)
next
  case (MarkingDownloaded jid)
  with assms show ?thesis
    by (auto simp add: touches_refl mark_downloaded_touches split: sum.splits)
next
  case (CleanupArrived jid)
  with assms show ?thesis
    by (auto simp add: touches_refl split: option.splits if_splits)
qed

text \<open>A continuation that is not committed leaves the status of its job as it is.\<close>

lemma task_step_uncommitted:
  assumes "task_step t cl now js f = (t', js', f')" and "\<not> committed t"
    and "js (task_job t) = Some j"
  shows "\<exists>j'. js' (task_job t) = Some j' \<and> job_kept j j'"
proof (cases t)
  case (FileArrived jid b64 ad)
  with assms show ?thesis by (auto simp add: job_kept_refl split: outcome.splits)
next
  case (FileChecked jid p b64 ad)
  with assms show ?thesis by simp
next
  case (Cleaning jid p)
  with assms show ?thesis by simp
next
  case (RemoteLookup jid c)
  with assms show ?thesis by (auto simp add: job_kept_refl)
next
  case (RemoteClearing jid c)
  with assms have j: "js jid = Some j" by simp
  from RemoteClearing assms j update_job_Some [of js jid j] clear_remote_kept [of j now]
  show ?thesis by auto
next
  case (Consuming jid)
  with assms show ?thesis by simp
next
  case (MarkingDownloaded jid)
  with assms show ?thesis by simp
next
  case (CleanupArrived jid)
  with assms show ?thesis by (auto simp add: job_kept_refl split: option.splits if_splits)
qed

text \<open>
  The continuation that follows is about the same job, and it is committed only if the
  one before was, or if the job was found in a state in which no execution is in progress.
\<close>

lemma remote_lookup_successor:
  "remote_lookup jid c cl js = Some t'' \<Longrightarrow> task_job t'' = jid \<and> committed t'' = c"
  by (auto simp add: remote_lookup_def after_remote_def
      split: option.splits if_splits client_outcome.splits)

lemma task_step_successor:
  assumes "task_step t cl now js f = (Some t'', js', f')"
  shows "task_job t'' = task_job t
         \<and> (committed t'' \<longrightarrow>
              committed t \<or> (\<exists>j. js (task_job t) = Some j \<and> \<not> in_progress j))"
proof (cases t)
  case (FileArrived jid b64 ad)
  with assms obtain p where p: "download_checks js f jid ad = Returned p"
    and t'': "t'' = FileChecked jid p b64 ad"
    by (auto split: outcome.splits)
  from p have "\<exists>j. js jid = Some j \<and> \<not> in_progress j"
    by (auto simp add: download_checks_cases in_progress_def no_artifact_def
        split: option.splits if_splits)
  with FileArrived t'' show ?thesis by simp
next
  case (FileChecked jid p b64 ad)
  with assms show ?thesis by (auto split: sum.splits if_splits)
next
  case (Cleaning jid p)
  with assms have "remote_lookup jid True cl js = Some t''" by auto
  from remote_lookup_successor [OF this] Cleaning show ?thesis by simp
next
  case (RemoteLookup jid c)
  with assms have "remote_lookup jid c cl js = Some t''" by auto
  from remote_lookup_successor [OF this] RemoteLookup show ?thesis by simp
next
  case (RemoteClearing jid c)
  with assms show ?thesis
    by (auto simp add: after_remote_def split: sum.splits if_splits)
next
  case (Consuming jid)
  with assms show ?thesis by (auto split: sum.splits)
next
  case (MarkingDownloaded jid)
  with assms show ?thesis by (auto split: sum.splits)
next
  case (CleanupArrived jid)
  with assms show ?thesis
    by (auto simp add: get_job_def in_progress_def no_artifact_def
        split: option.splits if_splits)
qed

lemma step_Advance_inv:
  assumes inv: "system_inv s"
    and st: "step plat (Advance i cl now) s = Some s'"
  shows "system_inv s'"
proof -
  from st have i: "i < length (tasks s)"
    by (auto split: if_splits)
  let ?t = "tasks s ! i"
  from i have mem: "?t \<in> set (tasks s)" by simp
  obtain t' js' f' where d: "task_step ?t cl now (store s) (files s) = (t', js', f')"
    by (metis prod_cases3)
  let ?ts = "case t' of None \<Rightarrow> take i (tasks s) @ drop (Suc i) (tasks s)
                      | Some t \<Rightarrow> (tasks s)[i := t]"
  from st i d have store': "store s' = js'" and running': "running s' = running s"
    and tasks': "tasks s' = ?ts"
    by auto
  have t: "touches (task_job ?t) (store s) js'"
    using d by (rule task_step_touches)
  have dom': "dom js' = dom (store s)"
    using t by (rule touches_dom)
  show ?thesis
  proof (rule system_invI)
    fix k stage assume k: "running s' k = Some stage"
    with running' have ks: "running s k = Some stage" by simp
    from inv_running [OF inv ks] obtain j where j: "store s k = Some j" "in_progress j"
      by blast
    show "\<exists>j. store s' k = Some j \<and> in_progress j"
    proof (cases "k = task_job ?t")
      case True
      have "\<not> committed ?t"
      proof
        assume "committed ?t"
        from inv_task [OF inv mem this] ks True show False by simp
      qed
      from task_step_uncommitted [OF d this, of j] j True
      obtain j' where "js' k = Some j'" "job_kept j j'" by auto
      with j store' show ?thesis by (auto intro: job_kept_in_progress)
    next
      case False
      with t have "js' k = store s k" by (simp add: touches_other)
      with j store' show ?thesis by simp
    qed
  next
    fix u assume u: "u \<in> set (tasks s')" and c: "committed u"
    have old: "task_job u \<in> dom (store s) \<and> running s (task_job u) = None"
    proof (cases "u \<in> set (tasks s)")
      case True
      from inv_task [OF inv True c] show ?thesis .
    next
      case False
      have "set (take i (tasks s) @ drop (Suc i) (tasks s)) \<subseteq> set (tasks s)"
        using set_take_subset [of i "tasks s"] set_drop_subset [of "Suc i" "tasks s"] by auto
      with u tasks' False obtain t'' where t'': "t' = Some t''" and "u \<in> set ((tasks s)[i := t''])"
        by (cases t') auto
      with False set_update_subset_insert [of "tasks s" i t''] have ut: "u = t''" by auto
      from task_step_successor [OF d [unfolded t'']] ut c
      have job: "task_job u = task_job ?t"
        and why: "committed ?t \<or> (\<exists>j. store s (task_job ?t) = Some j \<and> \<not> in_progress j)"
        by auto
      from why show ?thesis
      proof
        assume "committed ?t"
        from inv_task [OF inv mem this] job show ?thesis by simp
      next
        assume "\<exists>j. store s (task_job ?t) = Some j \<and> \<not> in_progress j"
        then obtain j where j: "store s (task_job ?t) = Some j" "\<not> in_progress j" by blast
        from inv_not_running [OF inv j] j(1) job show ?thesis by auto
      qed
    qed
    with dom' store' running' show "task_job u \<in> dom (store s') \<and> running s' (task_job u) = None"
      by simp
  next
    fix k j assume "store s' k = Some j" and "status j = Delivered"
    moreover have "\<forall>k j. store s k = Some j \<and> status j = Delivered \<longrightarrow> no_artifact j"
      using inv by (auto simp add: system_inv_def)
    ultimately show "no_artifact j"
      using touches_delivered [OF t] store' by auto
  qed
qed

subsection \<open>Steps of a job execution\<close>

lemma job_step_other:
  assumes "job_step stage jid ext cl up now js = (r, js')" and "k \<noteq> jid"
  shows "js' k = js k"
  using assms
  by (cases stage)
     (auto simp add: update_job_def Let_def
        split: option.splits sum.splits prod.splits if_splits)

lemma job_step_dom:
  assumes "job_step stage jid ext cl up now js = (r, js')"
  shows "dom js \<subseteq> dom js'"
  using assms
  by (cases stage)
     (auto simp add: update_job_def Let_def
        split: option.splits sum.splits prod.splits if_splits)

text \<open>
  A step of the execution of a job that is stored and in progress: while the execution
  goes on, the job stays in progress; when it ends, the job is \<^verbatim>\<open>completed\<close> or \<^verbatim>\<open>failed\<close>,
  and no exception has left the method.
\<close>

lemma job_step_effect:
  assumes "js jid = Some j" and "in_progress j"
    and "job_step stage jid ext cl up now js = (r, js')"
  shows "\<exists>j'. js' jid = Some j'
           \<and> (case r of
                 Inl e \<Rightarrow> False
               | Inr (Some stage') \<Rightarrow> in_progress j'
               | Inr None \<Rightarrow> status j' = Completed \<or> status j' = Failed)"
proof (cases stage)
  case JobQueued
  with assms show ?thesis by (auto simp add: get_job_def)
next
  case JobStarting
  with assms update_job_Some [of js jid j] show ?thesis
    by (auto simp add: in_progress_def no_artifact_def)
next
  case JobExtracting
  show ?thesis
  proof (cases ext)
    case (Inl msg)
    with JobExtracting assms update_job_Some [of js jid j] show ?thesis
      by (auto simp add: failed_updates_def)
  next
    case (Inr out)
    obtain details remote_error where "relay cl up = (details, remote_error)"
      by (metis surj_pair)
    with Inr JobExtracting assms update_job_Some [of js jid j] show ?thesis
      by (auto simp add: completed_updates_def dict_update_append split: option.splits)
  qed
next
  case (JobHandling msg)
  with assms update_job_Some [of js jid j] show ?thesis
    by (auto simp add: failed_updates_def)
qed

lemma step_AdvanceJob_inv:
  assumes inv: "system_inv s"
    and st: "step plat (AdvanceJob jid ext cl up now) s = Some s'"
  shows "system_inv s'"
proof -
  from st obtain stage where stage: "running s jid = Some stage"
    by (auto split: option.splits)
  obtain r js' where d: "job_step stage jid ext cl up now (store s) = (r, js')"
    by (metis surj_pair)
  let ?next = "case r of Inl e \<Rightarrow> None | Inr stage' \<Rightarrow> stage'"
  from st stage d have store': "store s' = js'" and tasks': "tasks s' = tasks s"
    and running': "running s' = (running s)(jid := ?next)"
    by auto
  from inv_running [OF inv stage] obtain j where j: "store s jid = Some j" "in_progress j"
    by blast
  from job_step_effect [OF j d] obtain j' where j': "js' jid = Some j'"
    and r: "case r of Inl e \<Rightarrow> False
            | Inr (Some stage') \<Rightarrow> in_progress j'
            | Inr None \<Rightarrow> status j' = Completed \<or> status j' = Failed"
    by blast
  show ?thesis
  proof (rule system_invI)
    fix k st' assume k: "running s' k = Some st'"
    show "\<exists>j. store s' k = Some j \<and> in_progress j"
    proof (cases "k = jid")
      case True
      with k running' have "?next = Some st'" by simp
      with r have "in_progress j'" by (auto split: sum.splits option.splits)
      with True j' store' show ?thesis by simp
    next
      case False
      with k running' have "running s k = Some st'" by simp
      from inv_running [OF inv this] job_step_other [OF d False] store' show ?thesis by simp
    qed
  next
    fix u assume u: "u \<in> set (tasks s')" and c: "committed u"
    with tasks' have "u \<in> set (tasks s)" by simp
    from inv_task [OF inv this c] have a: "task_job u \<in> dom (store s)"
      and b: "running s (task_job u) = None"
      by simp_all
    from b stage have "task_job u \<noteq> jid" by auto
    with b running' have "running s' (task_job u) = None" by simp
    moreover from a job_step_dom [OF d] store' have "task_job u \<in> dom (store s')" by auto
    ultimately show "task_job u \<in> dom (store s') \<and> running s' (task_job u) = None" by simp
  next
    fix k d' assume a: "store s' k = Some d'" "status d' = Delivered"
    show "no_artifact d'"
    proof (cases "k = jid")
      case True
      with a store' j' have "d' = j'" by simp
      with r a(2) show ?thesis
        by (auto simp add: in_progress_def split: sum.splits option.splits)
    next
      case False
      with a store' job_step_other [OF d False] have "store s k = Some d'" by simp
      from inv this a(2) show ?thesis by (rule inv_delivered)
    qed
  qed
qed

lemma step_PostDownload_inv:
  assumes inv: "system_inv s"
    and st: "step plat (PostDownload payload new_id t1 t2) s = Some s'"
  shows "system_inv s'"
proof -
  from st have fresh: "new_id \<notin> dom (store s)"
    by (auto split: if_splits)
  obtain r js' where e: "enqueue_download plat (files s) (store s) payload new_id t1 t2 = (r, js')"
    by (metis surj_pair)
  from enqueue_download_cases [OF e]
  show ?thesis
  proof
    assume "js' = store s \<and> (\<forall>j. r \<noteq> Returned j)"
    with st fresh e have "s' = s" by (cases r) auto
    with inv show ?thesis by simp
  next
    assume "\<exists>j. r = Returned j \<and> js' = (store s)(new_id \<mapsto> j) \<and> job_id j = new_id
               \<and> status j = Queued \<and> no_artifact j"
    then obtain j where r: "r = Returned j" and js': "js' = (store s)(new_id \<mapsto> j)"
      and j: "job_id j = new_id" "status j = Queued" "no_artifact j"
      by blast
    from st fresh e r js' j
    have store': "store s' = (store s)(new_id \<mapsto> j)"
      and running': "running s' = (running s)(new_id \<mapsto> JobQueued)"
      and tasks': "tasks s' = tasks s"
      by auto
    show ?thesis
    proof (rule system_invI)
      fix k st' assume k: "running s' k = Some st'"
      show "\<exists>j. store s' k = Some j \<and> in_progress j"
      proof (cases "k = new_id")
        case True
        with store' j show ?thesis by (simp add: in_progress_def)
      next
        case False
        with k running' have "running s k = Some st'" by simp
        from inv_running [OF inv this] False store' show ?thesis by simp
      qed
    next
      fix u assume "u \<in> set (tasks s')" and c: "committed u"
      with tasks' have "u \<in> set (tasks s)" by simp
      from inv_task [OF inv this c] fresh store' running'
      show "task_job u \<in> dom (store s') \<and> running s' (task_job u) = None"
        by auto
    next
      fix k d assume a: "store s' k = Some d" "status d = Delivered"
      show "no_artifact d"
      proof (cases "k = new_id")
        case True
        with a store' j show ?thesis by auto
      next
        case False
        with a store' have "store s k = Some d" by simp
        from inv this a(2) show ?thesis by (rule inv_delivered)
      qed
    qed
  qed
qed

lemma step_arrival_inv:
  assumes "system_inv s" and "\<not> committed t"
  shows "system_inv (s\<lparr>tasks := tasks s @ [t]\<rparr>)"
  using assms by (auto simp add: system_inv_def)

lemma step_FilesChange_inv:
  assumes "system_inv s" and "step plat (FilesChange f') s = Some s'"
  shows "system_inv s'"
  using assms by (auto simp add: system_inv_def)

lemma step_inv:
  assumes "system_inv s" and "step plat ev s = Some s'"
  shows "system_inv s'"
proof (cases ev)
  case (PostDownload payload new_id t1 t2)
  with assms show ?thesis by (auto intro: step_PostDownload_inv)
next
  case (AdvanceJob jid ext cl up now)
  with assms show ?thesis by (auto intro: step_AdvanceJob_inv)
next
  case (GetFile jid b64 ad)
  with assms step_arrival_inv [of s "FileArrived jid b64 ad"] show ?thesis by auto
next
  case (DeleteCleanup jid)
  with assms step_arrival_inv [of s "CleanupArrived jid"] show ?thesis by auto
next
  case (Advance i cl now)
  with assms show ?thesis by (auto intro: step_Advance_inv)
next
  case (FilesChange f')
  with assms show ?thesis by (auto intro: step_FilesChange_inv)
qed

lemma initial_inv: "system_inv (initial f)"
  by (simp add: system_inv_def initial_def)

lemma reachable_inv: "reachable plat s \<Longrightarrow> system_inv s"
  by (induction rule: reachable.induct) (auto intro: initial_inv step_inv)

lemma run_reachable:
  "reachable plat s \<Longrightarrow> run plat evs s = Some s' \<Longrightarrow> reachable plat s'"
proof (induction evs arbitrary: s)
  case Nil
  then show ?case by simp
next
  case (Cons ev evs)
  then obtain s1 where "step plat ev s = Some s1" "run plat evs s1 = Some s'"
    by (auto split: option.splits)
  with Cons show ?case by (blast intro: reachable.after)
qed

lemma run_append:
  "run plat (xs @ ys) s = (case run plat xs s of None \<Rightarrow> None | Some s1 \<Rightarrow> run plat ys s1)"
  by (induction xs arbitrary: s) (auto split: option.splits)

subsection \<open>A job whose execution is over and that points to no artifact\<close>

lemma settled_touches:
  assumes "settled s jid" and "touches k (store s) (store s')"
    and "running s' = running s"
  shows "settled s' jid"
proof -
  from assms(1) obtain j where "running s jid = None" "store s jid = Some j" "no_artifact j"
    by (auto simp add: settled_def)
  moreover from touches_job [OF assms(2) this(2)] this(3)
  have "\<exists>j'. store s' jid = Some j' \<and> no_artifact j'"
    by (auto simp add: job_evolves_def)
  ultimately show ?thesis using assms(3) by (simp add: settled_def)
qed

lemma settled_step:
  assumes s: "settled s jid" and st: "step plat ev s = Some s'"
  shows "settled s' jid"
proof (cases ev)
  case (PostDownload payload new_id t1 t2)
  with st have fresh: "new_id \<notin> dom (store s)"
    by (auto split: if_splits)
  obtain r js' where e: "enqueue_download plat (files s) (store s) payload new_id t1 t2 = (r, js')"
    by (metis surj_pair)
  from s fresh have ne: "jid \<noteq> new_id" by (auto simp add: settled_def)
  from enqueue_download_cases [OF e] show ?thesis
  proof
    assume "js' = store s \<and> (\<forall>j. r \<noteq> Returned j)"
    with st fresh e PostDownload have "s' = s" by (cases r) auto
    with s show ?thesis by simp
  next
    assume "\<exists>j. r = Returned j \<and> js' = (store s)(new_id \<mapsto> j) \<and> job_id j = new_id
               \<and> status j = Queued \<and> no_artifact j"
    then obtain j where r: "r = Returned j" and js': "js' = (store s)(new_id \<mapsto> j)"
      and j: "job_id j = new_id"
      by blast
    from st fresh e PostDownload r js' j
    have "store s' = (store s)(new_id \<mapsto> j)"
      "running s' = (running s)(new_id \<mapsto> JobQueued)"
      by auto
    with s ne show ?thesis by (simp add: settled_def)
  qed
next
  case (AdvanceJob k ext cl up now)
  with st obtain stage where stage: "running s k = Some stage"
    by (auto split: option.splits)
  with s have ne: "jid \<noteq> k" by (auto simp add: settled_def)
  obtain r js' where d: "job_step stage k ext cl up now (store s) = (r, js')"
    by (metis surj_pair)
  from st AdvanceJob stage d have "store s' = js'"
    "running s' = (running s)(k := case r of Inl e \<Rightarrow> None | Inr stage' \<Rightarrow> stage')"
    by auto
  with s ne job_step_other [OF d ne] show ?thesis by (simp add: settled_def)
next
  case (GetFile k b64 ad)
  with st s show ?thesis by (auto simp add: settled_def)
next
  case (DeleteCleanup k)
  with st s show ?thesis by (auto simp add: settled_def)
next
  case (Advance i cl now)
  with st have i: "i < length (tasks s)"
    by (auto split: if_splits)
  obtain t' js' f' where d: "task_step (tasks s ! i) cl now (store s) (files s) = (t', js', f')"
    by (metis prod_cases3)
  from st Advance i d have "store s' = js'" "running s' = running s"
    by auto
  with settled_touches [OF s, of "task_job (tasks s ! i)" s'] task_step_touches [OF d]
  show ?thesis by simp
next
  case (FilesChange f')
  with st s show ?thesis by (auto simp add: settled_def)
qed

lemma settled_run:
  "settled s jid \<Longrightarrow> run plat evs s = Some s' \<Longrightarrow> settled s' jid"
proof (induction evs arbitrary: s)
  case Nil
  then show ?case by simp
next
  case (Cons ev evs)
  then obtain s1 where "step plat ev s = Some s1" "run plat evs s1 = Some s'"
    by (auto split: option.splits)
  with Cons show ?case by (blast intro: settled_step)
qed

text \<open>
  The steps of a job execution, taken one after the other with nothing in between, are
  \<^verbatim>\<open>process_job\<close>.
\<close>

lemma job_steps_are_process_job:
  assumes "js jid = Some j"
  shows "\<exists>js1 js2.
           job_step JobQueued jid ext cl up t1 js = (Inr (Some JobStarting), js)
           \<and> job_step JobStarting jid ext cl up t1 js = (Inr (Some JobExtracting), js1)
           \<and> job_step JobExtracting jid ext cl up t2 js1 = (Inr None, js2)
           \<and> process_job js jid ext cl up t1 t2 = Inr js2"
proof -
  let ?j1 = "(dict_update [SetStatus Downloading, SetError None] j)\<lparr>updated_at := t1\<rparr>"
  let ?js1 = "js(jid \<mapsto> ?j1)"
  have u1: "update_job js jid [SetStatus Downloading, SetError None] t1 = Inr (?js1, ?j1)"
    using assms by (rule update_job_Some)
  have j1: "?js1 jid = Some ?j1" by simp
  have u2: "\<And>us. update_job ?js1 jid us t2
              = Inr (?js1(jid \<mapsto> (dict_update us ?j1)\<lparr>updated_at := t2\<rparr>),
                     (dict_update us ?j1)\<lparr>updated_at := t2\<rparr>)"
    using update_job_Some [of ?js1 jid ?j1] j1 by blast
  show ?thesis
  proof (cases ext)
    case (Inl msg)
    with assms u1 u2 [of "failed_updates msg"] show ?thesis
      by (simp add: process_job_def get_job_def)
  next
    case (Inr out)
    obtain details remote_error where r: "relay cl up = (details, remote_error)"
      by (metis surj_pair)
    with Inr assms u1 u2 [of "completed_updates jid out details remote_error"] show ?thesis
      by (simp add: process_job_def get_job_def)
  qed
qed

section \<open>Facts about delivery steps and the relay\<close>

text \<open>A request that takes its two steps without interruption is \<^verbatim>\<open>download_file\<close>.\<close>

lemma request_steps_are_download_file:
  "request_step rq (request_step rq (Arrived, js, f))
     = (case download_file js f (fr_job_id rq) (fr_as_base64 rq) (fr_auto_delete rq)
               (fr_client rq) (fr_t1 rq) (fr_t2 rq) (fr_t3 rq) of
          (r, js', f') \<Rightarrow> (Done r, js', f'))"
  by (auto simp add: request_step_def download_file_def split: outcome.splits prod.splits)

text \<open>
  A relay failure with a non-empty text is recorded in \<^verbatim>\<open>error\<close>, and the job is
  \<^verbatim>\<open>completed\<close> with its local artifact fields set, whatever the text.
\<close>

lemma relay_failure:
  "cl = ClientRaises msg \<or> (cl = Client \<and> up = Inl msg) \<Longrightarrow> relay cl up = (None, Some msg)"
  by (auto simp add: relay_def)

lemma relay_failure_recorded:
  assumes "js jid = Some j"
    and "cl = ClientRaises msg \<or> (cl = Client \<and> up = Inl msg)"
  shows "\<exists>j'. process_job js jid (Inr out) cl up t1 t2 = Inr (js(jid \<mapsto> j'))
           \<and> status j' = Completed \<and> output_file j' = Some out
           \<and> download_url j' = Some (''/download/'' @ jid @ ''/file'')
           \<and> error j' = (if msg = [] then None
                          else Some (''Google Drive upload failed: '' @ msg))"
  using process_job_success [of js jid j out cl up t1 t2, OF assms(1)] relay_failure [OF assms(2)]
  by auto

section \<open>Facts about the path recovery\<close>


















section \<open>Two concurrent delivery requests\<close>

text \<open>
  Claim C1 says that of two concurrent delivery requests for a \<^verbatim>\<open>completed\<close> job exactly one
  is served. When the second request takes its checks before the first has called
  \<^verbatim>\<open>mark_delivering\<close>, both pass them and both are served: each gets the base64 body (first
  conjunct), or each gets a \<^verbatim>\<open>FileResponse\<close> for the same file (second conjunct). When the
  first request has marked the job before the second arrives, the second is answered with
  409 (third conjunct).
\<close>

theorem concurrent_deliveries_both_served:
  "(case interleave inline_request inline_request [False, True, False, True]
           (Arrived, Arrived, example_store, example_files) of
      (s1, s2, js, f) \<Rightarrow> (s1, s2, map_option status (js ''a1'')))
     = (Done (Returned (Base64Body ''/tmp/v.mp4'')), Done (Returned (Base64Body ''/tmp/v.mp4'')),
        Some Downloaded)
   \<and> (case interleave stream_request stream_request [False, True, False, True]
           (Arrived, Arrived, example_store, example_files) of
        (s1, s2, js, f) \<Rightarrow> (s1, s2, map_option status (js ''a1'')))
     = (Done (Returned (FileResponse ''/tmp/v.mp4'' (CleanupAfterDelivery ''a1'' ''/tmp/v.mp4''))),
        Done (Returned (FileResponse ''/tmp/v.mp4'' (CleanupAfterDelivery ''a1'' ''/tmp/v.mp4''))),
        Some Delivering)
   \<and> (case interleave stream_request stream_request [False, False, True, True]
           (Arrived, Arrived, example_store, example_files) of
        (s1, s2, js, f) \<Rightarrow> (s1, s2, map_option status (js ''a1'')))
     = (Done (Returned (FileResponse ''/tmp/v.mp4'' (CleanupAfterDelivery ''a1'' ''/tmp/v.mp4''))),
        Done (HTTPException 409 msg_delivering),
        Some Delivering)"
  by code_simp

section \<open>The status gate of the delivery endpoint\<close>

text \<open>
  Claim C2. For \<^verbatim>\<open>GET /download/{job_id}/file\<close> with response \<open>r\<close>: an unknown identifier
  gives 404; status \<^verbatim>\<open>delivered\<close> gives 410; status \<^verbatim>\<open>delivering\<close> gives 409; any other status
  that is neither \<^verbatim>\<open>completed\<close> nor (\<^verbatim>\<open>downloaded\<close> with \<^verbatim>\<open>auto_delete\<close> false) gives 409 with a
  message that contains the status; an allowed status whose recorded path is not on disk
  gives 404; and a response is returned only for a stored job in an allowed status whose
  recorded path exists.
\<close>

theorem download_file_gate:
  assumes "download_file js f jid as_base64 auto_delete cl t1 t2 t3 = (r, js', f')"
  shows "(get_job js jid = None \<longrightarrow> r = HTTPException 404 msg_job_not_found)
       \<and> (\<forall>j. get_job js jid = Some j \<longrightarrow>
             (status j = Delivered \<longrightarrow> r = HTTPException 410 msg_gone)
           \<and> (status j = Delivering \<longrightarrow> r = HTTPException 409 msg_delivering)
           \<and> (status j \<notin> {Delivered, Delivering, Completed}
                \<and> \<not> (status j = Downloaded \<and> \<not> auto_delete) \<longrightarrow>
                r = HTTPException 409
                      (msg_not_ready @ '' (status: '' @ status_str (status j) @ '')''))
           \<and> ((status j = Completed \<or> (status j = Downloaded \<and> \<not> auto_delete))
                \<and> (\<exists>p. output_file j = Some p \<and> p \<noteq> [] \<and> \<not> exists_path f p) \<longrightarrow>
                r = HTTPException 404 msg_file_missing))
       \<and> (\<forall>d. r = Returned d \<longrightarrow>
             (\<exists>j p. get_job js jid = Some j
                \<and> (status j = Completed \<or> (status j = Downloaded \<and> \<not> auto_delete))
                \<and> output_file j = Some p \<and> exists_path f p))"
proof -
  have rej: "\<And>c d. download_checks js f jid auto_delete = HTTPException c d
               \<Longrightarrow> r = HTTPException c d"
    using assms by (simp add: download_file_def)
  have served: "\<And>d. r = Returned d \<Longrightarrow> \<exists>p. download_checks js f jid auto_delete = Returned p"
    using assms by (auto simp: download_file_def split: outcome.splits)
  show ?thesis
    apply (intro conjI allI impI)
    subgoal by (rule rej) (simp add: download_checks_cases get_job_def)
    subgoal by (rule rej) (simp add: download_checks_cases get_job_def)
    subgoal by (rule rej) (simp add: download_checks_cases get_job_def)
    subgoal by (rule rej) (auto simp add: download_checks_cases get_job_def)
    subgoal by (rule rej) (auto simp add: download_checks_cases get_job_def)
    subgoal for d using served[of d]
      by (auto simp add: download_checks_cases get_job_def split: option.splits if_splits)
    done
qed

theorem download_file_gate_witness:
  "get_job Map.empty ''j9'' = None
   \<and> fst (download_file Map.empty Map.empty ''j9'' False True NoClient 3 4 5)
       = HTTPException 404 msg_job_not_found
   \<and> fst (download_file [''j1'' \<mapsto> example_job ''j1'' Delivered None] Map.empty
            ''j1'' False True NoClient 3 4 5)
       = HTTPException 410 msg_gone
   \<and> fst (download_file [''j1'' \<mapsto> example_job ''j1'' Delivering (Some ''/tmp/v.mp4'')]
            [''/tmp/v.mp4'' \<mapsto> File] ''j1'' False True NoClient 3 4 5)
       = HTTPException 409 msg_delivering
   \<and> fst (download_file [''j1'' \<mapsto> example_job ''j1'' Downloaded (Some ''/tmp/v.mp4'')]
            [''/tmp/v.mp4'' \<mapsto> File] ''j1'' False True NoClient 3 4 5)
       = HTTPException 409 (msg_not_ready @ '' (status: downloaded)'')
   \<and> fst (download_file [''j1'' \<mapsto> example_job ''j1'' Completed (Some ''/tmp/v.mp4'')]
            Map.empty ''j1'' False True NoClient 3 4 5)
       = HTTPException 404 msg_file_missing
   \<and> fst (download_file [''j1'' \<mapsto> example_job ''j1'' Completed (Some ''/tmp/v.mp4'')]
            [''/tmp/v.mp4'' \<mapsto> File] ''j1'' False True NoClient 3 4 5)
       = Returned (FileResponse ''/tmp/v.mp4'' (CleanupAfterDelivery ''j1'' ''/tmp/v.mp4''))
   \<and> get_job [''j1'' \<mapsto> example_job ''j1'' Completed (Some ''/tmp/v.mp4'')] ''j1''
       = Some (example_job ''j1'' Completed (Some ''/tmp/v.mp4''))
   \<and> exists_path [''/tmp/v.mp4'' \<mapsto> File] ''/tmp/v.mp4''"
proof -
  have split3: "\<And>x :: delivery outcome \<times> jobs \<times> fs. x = (fst x, fst (snd x), snd (snd x))"
    by simp
  have unknown: "get_job Map.empty ''j9'' = None"
    by (simp add: get_job_def)
  have a: "fst (download_file Map.empty Map.empty ''j9'' False True NoClient 3 4 5)
       = HTTPException 404 msg_job_not_found"
    using download_file_gate
        [OF split3 [of "download_file Map.empty Map.empty ''j9'' False True NoClient 3 4 5"]] unknown by blast
  let ?gone = "[''j1'' \<mapsto> example_job ''j1'' Delivered None]"
  have "get_job ?gone ''j1'' = Some (example_job ''j1'' Delivered None)"
    "status (example_job ''j1'' Delivered None) = Delivered"
    by (simp_all add: get_job_def example_job_def)
  then have b: "fst (download_file ?gone Map.empty ''j1'' False True NoClient 3 4 5)
       = HTTPException 410 msg_gone"
    using download_file_gate
        [OF split3 [of "download_file ?gone Map.empty ''j1'' False True NoClient 3 4 5"]] by blast
  let ?busy = "[''j1'' \<mapsto> example_job ''j1'' Delivering (Some ''/tmp/v.mp4'')]"
  let ?disk = "[''/tmp/v.mp4'' \<mapsto> File]"
  have "get_job ?busy ''j1'' = Some (example_job ''j1'' Delivering (Some ''/tmp/v.mp4''))"
    "status (example_job ''j1'' Delivering (Some ''/tmp/v.mp4'')) = Delivering"
    by (simp_all add: get_job_def example_job_def)
  then have c: "fst (download_file ?busy ?disk ''j1'' False True NoClient 3 4 5)
       = HTTPException 409 msg_delivering"
    using download_file_gate
        [OF split3 [of "download_file ?busy ?disk ''j1'' False True NoClient 3 4 5"]] by blast
  let ?kept = "[''j1'' \<mapsto> example_job ''j1'' Downloaded (Some ''/tmp/v.mp4'')]"
  have "get_job ?kept ''j1'' = Some (example_job ''j1'' Downloaded (Some ''/tmp/v.mp4''))"
    "status (example_job ''j1'' Downloaded (Some ''/tmp/v.mp4''))
       \<notin> {Delivered, Delivering, Completed}
     \<and> \<not> (status (example_job ''j1'' Downloaded (Some ''/tmp/v.mp4'')) = Downloaded \<and> \<not> True)"
    by (simp_all add: get_job_def example_job_def)
  then have "fst (download_file ?kept ?disk ''j1'' False True NoClient 3 4 5)
       = HTTPException 409 (msg_not_ready @ '' (status: ''
           @ status_str (status (example_job ''j1'' Downloaded (Some ''/tmp/v.mp4''))) @ '')'')"
    using download_file_gate
        [OF split3 [of "download_file ?kept ?disk ''j1'' False True NoClient 3 4 5"]] by blast
  then have d: "fst (download_file ?kept ?disk ''j1'' False True NoClient 3 4 5)
       = HTTPException 409 (msg_not_ready @ '' (status: downloaded)'')"
    by (simp add: example_job_def)
  let ?ready = "[''j1'' \<mapsto> example_job ''j1'' Completed (Some ''/tmp/v.mp4'')]"
  have ready: "get_job ?ready ''j1'' = Some (example_job ''j1'' Completed (Some ''/tmp/v.mp4''))"
    by (simp add: get_job_def)
  have "(status (example_job ''j1'' Completed (Some ''/tmp/v.mp4'')) = Completed
          \<or> (status (example_job ''j1'' Completed (Some ''/tmp/v.mp4'')) = Downloaded \<and> \<not> True))
     \<and> (\<exists>p. output_file (example_job ''j1'' Completed (Some ''/tmp/v.mp4'')) = Some p \<and> p \<noteq> []
            \<and> \<not> exists_path Map.empty p)"
    by (simp add: example_job_def exists_path_def)
  with ready have e: "fst (download_file ?ready Map.empty ''j1'' False True NoClient 3 4 5)
       = HTTPException 404 msg_file_missing"
    using download_file_gate
        [OF split3 [of "download_file ?ready Map.empty ''j1'' False True NoClient 3 4 5"]] by blast
  have g: "fst (download_file ?ready ?disk ''j1'' False True NoClient 3 4 5)
       = Returned (FileResponse ''/tmp/v.mp4'' (CleanupAfterDelivery ''j1'' ''/tmp/v.mp4''))"
    by (simp add: download_file_def download_checks_cases deliver_def mark_delivering_def
        example_job_def exists_path_def)
  have h: "exists_path ?disk ''/tmp/v.mp4''"
    by (simp add: exists_path_def)
  from unknown a b c d e g ready h show ?thesis by blast
qed

section \<open>A delivered job that changes status\<close>

text \<open>
  Claim C3 says that a job that has reached \<^verbatim>\<open>delivered\<close> never changes status again. In the
  run \<^const>\<open>example_trace\<close> the job is \<^verbatim>\<open>delivered\<close> once the manual cleanup has made its last
  store call (the eleventh step), while the background task of the earlier \<^verbatim>\<open>FileResponse\<close>
  is still outstanding; that task, \<^verbatim>\<open>mark_downloaded\<close>, tests no status and sets it to
  \<^verbatim>\<open>downloaded\<close>.
\<close>

theorem delivered_job_becomes_downloaded:
  "map_option (\<lambda>s. map_option status (store s ''a1''))
     (run example_platform (take 11 example_trace) (initial Map.empty)) = Some (Some Delivered)
   \<and> map_option (\<lambda>s. map_option status (store s ''a1''))
        (run example_platform example_trace (initial Map.empty)) = Some (Some Downloaded)"
  by code_simp

section \<open>A delivered job points to no artifact\<close>

text \<open>
  Claim C4. In every state the service can reach, whatever the interleaving of the store
  calls of submissions, job executions, delivery requests, their background tasks and
  manual cleanups, a job whose status is \<^verbatim>\<open>delivered\<close> has \<^verbatim>\<open>output_file\<close>, \<^verbatim>\<open>download_url\<close>,
  \<^verbatim>\<open>remote_file_id\<close>, \<^verbatim>\<open>remote_file_url\<close> and \<^verbatim>\<open>remote_file_view_url\<close> all \<^verbatim>\<open>None\<close>, and after
  any further steps (including those of requests that were in flight when the job became
  \<^verbatim>\<open>delivered\<close>) the five fields of that job are still \<^verbatim>\<open>None\<close>.
\<close>

theorem delivered_job_has_no_artifact:
  assumes "reachable plat s" and "store s jid = Some j" and "status j = Delivered"
  shows "no_artifact j
         \<and> (\<forall>evs s'. run plat evs s = Some s' \<longrightarrow>
                (\<exists>j'. store s' jid = Some j' \<and> no_artifact j'))"
proof -
  from assms(1) have inv: "system_inv s" by (rule reachable_inv)
  from inv assms(2,3) have clean: "no_artifact j" by (rule inv_delivered)
  from assms(3) have "\<not> in_progress j" by (simp add: in_progress_def)
  with inv assms(2) have "running s jid = None" by (rule inv_not_running)
  with assms(2) clean have "settled s jid" by (simp add: settled_def)
  then have "\<And>evs s'. run plat evs s = Some s' \<Longrightarrow> settled s' jid"
    by (rule settled_run)
  with clean show ?thesis by (auto simp add: settled_def)
qed

theorem delivered_job_has_no_artifact_witness:
  "\<exists>s j s'. run example_platform (take 11 example_trace) (initial Map.empty) = Some s
      \<and> reachable example_platform s
      \<and> store s ''a1'' = Some j \<and> status j = Delivered \<and> no_artifact j
      \<and> tasks s = [MarkingDownloaded ''a1'']
      \<and> run example_platform (drop 11 example_trace) s = Some s'
      \<and> (\<exists>j'. store s' ''a1'' = Some j' \<and> status j' = Downloaded \<and> no_artifact j')"
proof -
  let ?P = example_platform
  let ?I = "initial Map.empty"
  have "case run ?P (take 11 example_trace) ?I of
          None \<Rightarrow> False
        | Some s \<Rightarrow> tasks s = [MarkingDownloaded ''a1'']
            \<and> (case store s ''a1'' of None \<Rightarrow> False | Some j \<Rightarrow> status j = Delivered)"
    by code_simp
  then obtain s j where s: "run ?P (take 11 example_trace) ?I = Some s"
    and j: "store s ''a1'' = Some j" "status j = Delivered"
    and ts: "tasks s = [MarkingDownloaded ''a1'']"
    by (auto split: option.splits)
  have "case run ?P example_trace ?I of
          None \<Rightarrow> False
        | Some s' \<Rightarrow> (case store s' ''a1'' of None \<Rightarrow> False | Some j' \<Rightarrow> status j' = Downloaded)"
    by code_simp
  then obtain s' j0 where whole: "run ?P example_trace ?I = Some s'"
    and j0: "store s' ''a1'' = Some j0" "status j0 = Downloaded"
    by (auto split: option.splits)
  have "run ?P (take 11 example_trace @ drop 11 example_trace) ?I
          = run ?P (drop 11 example_trace) s"
    using s by (simp only: run_append option.case)
  with whole have s': "run ?P (drop 11 example_trace) s = Some s'"
    by (simp only: append_take_drop_id)
  have r: "reachable ?P s"
    using reachable.start s by (rule run_reachable)
  from delivered_job_has_no_artifact [OF r j] s'
  have "no_artifact j" "\<exists>j'. store s' ''a1'' = Some j' \<and> no_artifact j'"
    by blast+
  with s r j ts s' j0 show ?thesis by auto
qed

section \<open>The store's operations on an absent identifier\<close>

text \<open>
  Claim C5, as the spec states it, asks every mutating store operation to signal
  "not found" for an absent identifier. \<^verbatim>\<open>mark_delivering\<close>, \<^verbatim>\<open>mark_downloaded\<close> and
  \<^verbatim>\<open>mark_file_consumed\<close> write to the dictionary themselves, behind their own
  \<^verbatim>\<open>if not job: return\<close>: on the empty store each returns normally and leaves the store
  empty.
\<close>

theorem mark_absent_id_counterexample:
  "get_job Map.empty ''missing'' = None
   \<and> mark_delivering Map.empty ''missing'' 7 \<noteq> Inl (KeyError ''missing'')
   \<and> mark_delivering Map.empty ''missing'' 7 = Inr Map.empty
   \<and> mark_downloaded Map.empty ''missing'' 7 = Inr Map.empty
   \<and> mark_file_consumed Map.empty ''missing'' 7 = Inr Map.empty"
  by (simp add: get_job_def mark_delivering_def mark_downloaded_def mark_file_consumed_def)

text \<open>
  Claim C5, amended: for an absent identifier the update primitive \<^verbatim>\<open>_update_job\<close> raises
  \<^verbatim>\<open>KeyError\<close> ("not found") whatever the updates, while the three mark operations, which do
  not go through it, return normally with the store unchanged.
\<close>

theorem absent_id_update_raises_marks_return:
  assumes "get_job js jid = None"
  shows "update_job js jid updates now = Inl (KeyError jid)
         \<and> mark_delivering js jid now = Inr js
         \<and> mark_downloaded js jid now = Inr js
         \<and> mark_file_consumed js jid now = Inr js"
  using assms
  by (simp add: get_job_def update_job_def mark_delivering_def mark_downloaded_def
      mark_file_consumed_def)

theorem absent_id_update_raises_marks_return_witness:
  "get_job Map.empty ''missing'' = None
   \<and> update_job Map.empty ''missing'' [SetStatus Delivering] 7 = Inl (KeyError ''missing'')
   \<and> mark_delivering Map.empty ''missing'' 7 = Inr Map.empty
   \<and> mark_downloaded Map.empty ''missing'' 7 = Inr Map.empty
   \<and> mark_file_consumed Map.empty ''missing'' 7 = Inr Map.empty"
proof -
  have absent: "get_job Map.empty ''missing'' = None"
    by (simp add: get_job_def)
  show ?thesis
    using absent absent_id_update_raises_marks_return [OF absent, of "[SetStatus Delivering]" 7]
    by simp
qed

section \<open>A relay failure whose exception has no text\<close>

text \<open>
  Claim C6 says that when extraction succeeds and the relay fails, the job is \<^verbatim>\<open>completed\<close>
  with \<^verbatim>\<open>output_file\<close> and \<^verbatim>\<open>download_url\<close> set and the failure is recorded in \<^verbatim>\<open>error\<close>. The
  code stores the text behind \<^verbatim>\<open>if remote_error:\<close>, so an upload that raises an exception
  whose \<^verbatim>\<open>str\<close> is empty leaves \<^verbatim>\<open>error\<close> at \<^verbatim>\<open>None\<close>; with the text \<^verbatim>\<open>quota\<close> it is recorded.
\<close>

theorem relay_failure_without_text_not_recorded:
  "map_option (\<lambda>j. (status j, output_file j, download_url j, error j))
     (case process_job [''a1'' \<mapsto> example_job ''a1'' Queued None] ''a1''
             (Inr ''/tmp/v.mp4'') Client (Inl []) 3 4 of
        Inl e \<Rightarrow> None | Inr js \<Rightarrow> js ''a1'')
     = Some (Completed, Some ''/tmp/v.mp4'', Some ''/download/a1/file'', None)
   \<and> map_option (\<lambda>j. (status j, output_file j, download_url j, error j))
     (case process_job [''a1'' \<mapsto> example_job ''a1'' Queued None] ''a1''
             (Inr ''/tmp/v.mp4'') Client (Inl ''quota'') 3 4 of
        Inl e \<Rightarrow> None | Inr js \<Rightarrow> js ''a1'')
     = Some (Completed, Some ''/tmp/v.mp4'', Some ''/download/a1/file'',
             Some ''Google Drive upload failed: quota'')"
  by code_simp

section \<open>A failed extraction\<close>

text \<open>
  Claim C7. The \<^verbatim>\<open>except\<close> handler of \<^verbatim>\<open>process_job\<close>, entered because \<^verbatim>\<open>download_video\<close> has
  raised with text \<open>msg\<close>, makes one update of the stored job: status \<^verbatim>\<open>failed\<close>, \<^verbatim>\<open>error\<close> the
  text, \<^verbatim>\<open>download_url\<close> and the three remote fields \<^verbatim>\<open>None\<close>, \<^verbatim>\<open>updated_at\<close> the time of the
  update; \<^verbatim>\<open>output_file\<close> is not among the fields it writes. The method then returns: no
  exception leaves it. In every state the service can reach, whatever the interleaving,
  the job of an execution that is at this point still has \<^verbatim>\<open>output_file\<close> \<^verbatim>\<open>None\<close> (only the
  success path of its own execution writes that field), so that after the step the job
  is \<^verbatim>\<open>failed\<close>, its \<^verbatim>\<open>error\<close> is the text, all five artifact fields are \<^verbatim>\<open>None\<close>, and the
  execution is over.
\<close>

theorem failed_extraction_marks_job_failed:
  "(\<forall>js j. js jid = Some j \<longrightarrow>
      job_step JobExtracting jid (Inl msg) cl up now js
        = (Inr None,
           js(jid \<mapsto> j\<lparr>status := Failed, error := Some msg, download_url := None,
                        remote_file_id := None, remote_file_url := None,
                        remote_file_view_url := None, updated_at := now\<rparr>)))
   \<and> (\<forall>s. reachable plat s \<and> running s jid = Some JobExtracting \<longrightarrow>
        (\<exists>j s' j'. store s jid = Some j \<and> output_file j = None
           \<and> step plat (AdvanceJob jid (Inl msg) cl up now) s = Some s'
           \<and> running s' jid = None \<and> (\<forall>k. k \<noteq> jid \<longrightarrow> store s' k = store s k)
           \<and> store s' jid = Some j' \<and> status j' = Failed \<and> error j' = Some msg
           \<and> output_file j' = None \<and> download_url j' = None \<and> remote_file_id j' = None
           \<and> remote_file_url j' = None \<and> remote_file_view_url j' = None))"
proof (intro conjI allI impI)
  fix js :: jobs and j :: job
  assume "js jid = Some j"
  then show "job_step JobExtracting jid (Inl msg) cl up now js
        = (Inr None,
           js(jid \<mapsto> j\<lparr>status := Failed, error := Some msg, download_url := None,
                        remote_file_id := None, remote_file_url := None,
                        remote_file_view_url := None, updated_at := now\<rparr>))"
    using update_job_Some [of js jid j "failed_updates msg" now]
    by (simp add: failed_updates_def)
next
  fix s assume a: "reachable plat s \<and> running s jid = Some JobExtracting"
  then have inv: "system_inv s" by (blast intro: reachable_inv)
  from a have stage: "running s jid = Some JobExtracting" by simp
  from inv_running [OF inv stage] obtain j where j: "store s jid = Some j"
    and fresh: "no_artifact j"
    by (auto simp add: in_progress_def)
  let ?j' = "j\<lparr>status := Failed, error := Some msg, download_url := None,
                remote_file_id := None, remote_file_url := None,
                remote_file_view_url := None, updated_at := now\<rparr>"
  let ?s' = "s\<lparr>store := (store s)(jid \<mapsto> ?j'), running := (running s)(jid := None)\<rparr>"
  have "job_step JobExtracting jid (Inl msg) cl up now (store s)
          = (Inr None, (store s)(jid \<mapsto> ?j'))"
    using j update_job_Some [of "store s" jid j "failed_updates msg" now]
    by (simp add: failed_updates_def)
  with stage have "step plat (AdvanceJob jid (Inl msg) cl up now) s = Some ?s'"
    by simp
  moreover from fresh have "output_file j = None" by (simp add: no_artifact_def)
  ultimately
  show "\<exists>j s' j'. store s jid = Some j \<and> output_file j = None
           \<and> step plat (AdvanceJob jid (Inl msg) cl up now) s = Some s'
           \<and> running s' jid = None \<and> (\<forall>k. k \<noteq> jid \<longrightarrow> store s' k = store s k)
           \<and> store s' jid = Some j' \<and> status j' = Failed \<and> error j' = Some msg
           \<and> output_file j' = None \<and> download_url j' = None \<and> remote_file_id j' = None
           \<and> remote_file_url j' = None \<and> remote_file_view_url j' = None"
    using j by (intro exI [of _ j] exI [of _ ?s'] exI [of _ ?j']) simp
qed

theorem failed_extraction_marks_job_failed_witness:
  "job_step JobExtracting ''a1'' (Inl ''HTTP Error 404'') NoClient (Inl []) 9 example_store
     = (Inr None,
        [''a1'' \<mapsto> (example_job ''a1'' Completed (Some ''/tmp/v.mp4''))
                     \<lparr>status := Failed, error := Some ''HTTP Error 404'', download_url := None,
                      updated_at := 9\<rparr>])
   \<and> (\<exists>s s' j'. run example_platform (take 3 example_trace) (initial Map.empty) = Some s
        \<and> reachable example_platform s \<and> running s ''a1'' = Some JobExtracting
        \<and> step example_platform (AdvanceJob ''a1'' (Inl ''HTTP Error 404'') NoClient (Inl []) 9) s
            = Some s'
        \<and> running s' ''a1'' = None
        \<and> store s' ''a1'' = Some j' \<and> status j' = Failed \<and> error j' = Some ''HTTP Error 404''
        \<and> output_file j' = None \<and> download_url j' = None \<and> remote_file_id j' = None
        \<and> remote_file_url j' = None \<and> remote_file_view_url j' = None)"
proof -
  let ?P = example_platform
  let ?I = "initial Map.empty"
  let ?ev = "AdvanceJob ''a1'' (Inl ''HTTP Error 404'') NoClient (Inl []) 9"
  note inst = failed_extraction_marks_job_failed
    [of "''a1''" "''HTTP Error 404''" NoClient "Inl []" 9 ?P]
  have stored: "example_store ''a1'' = Some (example_job ''a1'' Completed (Some ''/tmp/v.mp4''))"
    by (simp add: example_store_def)
  from inst stored
  have "job_step JobExtracting ''a1'' (Inl ''HTTP Error 404'') NoClient (Inl []) 9 example_store
     = (Inr None,
        example_store(''a1'' \<mapsto> (example_job ''a1'' Completed (Some ''/tmp/v.mp4''))
                     \<lparr>status := Failed, error := Some ''HTTP Error 404'', download_url := None,
                      remote_file_id := None, remote_file_url := None,
                      remote_file_view_url := None, updated_at := 9\<rparr>))"
    by blast
  then have first: "job_step JobExtracting ''a1'' (Inl ''HTTP Error 404'') NoClient (Inl []) 9
       example_store
     = (Inr None,
        [''a1'' \<mapsto> (example_job ''a1'' Completed (Some ''/tmp/v.mp4''))
                     \<lparr>status := Failed, error := Some ''HTTP Error 404'', download_url := None,
                      updated_at := 9\<rparr>])"
    by (simp add: example_store_def example_job_def)
  have "case run ?P (take 3 example_trace) ?I of
          None \<Rightarrow> False | Some s \<Rightarrow> running s ''a1'' = Some JobExtracting"
    by code_simp
  then obtain s where s: "run ?P (take 3 example_trace) ?I = Some s"
    and q: "running s ''a1'' = Some JobExtracting"
    by (auto split: option.splits)
  have r: "reachable ?P s"
    using reachable.start s by (rule run_reachable)
  from inst r q
  obtain s' j' where "step ?P ?ev s = Some s'" "running s' ''a1'' = None"
    "store s' ''a1'' = Some j'" "status j' = Failed" "error j' = Some ''HTTP Error 404''"
    "output_file j' = None" "download_url j' = None" "remote_file_id j' = None"
    "remote_file_url j' = None" "remote_file_view_url j' = None"
    by blast
  with s r q have "\<exists>s s' j'. run ?P (take 3 example_trace) ?I = Some s
        \<and> reachable ?P s \<and> running s ''a1'' = Some JobExtracting
        \<and> step ?P ?ev s = Some s'
        \<and> running s' ''a1'' = None
        \<and> store s' ''a1'' = Some j' \<and> status j' = Failed \<and> error j' = Some ''HTTP Error 404''
        \<and> output_file j' = None \<and> download_url j' = None \<and> remote_file_id j' = None
        \<and> remote_file_url j' = None \<and> remote_file_view_url j' = None"
    by blast
  with first show ?thesis by blast
qed

section \<open>Validation of a submitted format\<close>




section \<open>Recovery of the downloaded file's path\<close>



section \<open>Rejected delivery requests\<close>

text \<open>
  Claim C10. A delivery request that ends in an \<^verbatim>\<open>HTTPException\<close> leaves the job store and
  the file system as they were; its status code is 404, 409 or 410, and it was raised by
  the checks that precede \<^verbatim>\<open>mark_delivering\<close>.
\<close>

theorem rejected_delivery_changes_nothing:
  assumes "download_file js f jid as_base64 auto_delete cl t1 t2 t3
             = (HTTPException code detail, js', f')"
  shows "js' = js \<and> f' = f \<and> code \<in> {404, 409, 410}
         \<and> download_checks js f jid auto_delete = HTTPException code detail"
  using download_file_rejected [OF assms] download_checks_codes by blast

theorem rejected_delivery_changes_nothing_witness:
  "download_file [''j1'' \<mapsto> example_job ''j1'' Queued None] Map.empty ''j1'' True True Client 3 4 5
     = (HTTPException 409 (msg_not_ready @ '' (status: queued)''),
        [''j1'' \<mapsto> example_job ''j1'' Queued None], Map.empty)
   \<and> download_checks [''j1'' \<mapsto> example_job ''j1'' Queued None] Map.empty ''j1'' True
     = HTTPException 409 (msg_not_ready @ '' (status: queued)'')"
proof -
  let ?js = "[''j1'' \<mapsto> example_job ''j1'' Queued None]"
  have run: "download_file ?js Map.empty ''j1'' True True Client 3 4 5
     = (HTTPException 409 (msg_not_ready @ '' (status: queued)''), ?js, Map.empty)"
    by (simp add: download_file_def download_checks_cases example_job_def)
  from rejected_delivery_changes_nothing [OF run] run show ?thesis by blast
qed

end
